theory Spec2Isabelle
  imports Complex_Main
begin

section \<open>Conventions of the embedding\<close>

text \<open>
  The solvers of the repository work on C++ \<^verbatim>\<open>double\<close> values and on Armadillo vectors and
  matrices. In this development a \<^verbatim>\<open>double\<close> is a \<^typ>\<open>real\<close> and rounding is outside the
  model. Where the source divides by a quantity that is zero for parameters the solver
  accepts, the IEEE result is written out, as the text of the definition says: the dual
  objective of \<^verbatim>\<open>dal\<close>, which is then \<open>+inf\<close> or NaN, has a type of its own. An \<^verbatim>\<open>arma::vec\<close>
  is a list of reals, an \<^verbatim>\<open>arma::mat\<close> is the list of its rows, an \<^verbatim>\<open>arma::uvec\<close> of
  indices is a list of naturals. Member variables of a class are the fields of a record
  that every member function takes and returns; the caller's output buffers
  (\<^verbatim>\<open>coefs\<close>, \<^verbatim>\<open>resids\<close>) are passed in and returned.
\<close>

type_synonym vec = "real list"
type_synonym mat = "real list list"
type_synonym uvec = "nat list"

subsection \<open>Armadillo operations used by the solvers\<close>

definition accu :: "vec \<Rightarrow> real" where
  "accu v = sum_list v"

text \<open>\<^verbatim>\<open>mean(v)\<close>; the solvers call it on non-empty vectors only.\<close>

definition mean :: "vec \<Rightarrow> real" where
  "mean v = sum_list v / real (length v)"

definition dot :: "vec \<Rightarrow> vec \<Rightarrow> real" where
  "dot u v = sum_list (map2 (*) u v)"

text \<open>\<^verbatim>\<open>norm(x, 2)\<close> and \<^verbatim>\<open>norm(x, 1)\<close>.\<close>

definition norm2 :: "vec \<Rightarrow> real" where
  "norm2 x = sqrt (sum_list (map (\<lambda>v. v * v) x))"

definition norm1 :: "vec \<Rightarrow> real" where
  "norm1 x = sum_list (map abs x)"

text \<open>Element-wise operations: \<^verbatim>\<open>u % v\<close>, \<^verbatim>\<open>u + v\<close>, \<^verbatim>\<open>u - v\<close>, \<^verbatim>\<open>c * v\<close>, \<^verbatim>\<open>v + c\<close>, \<^verbatim>\<open>v - c\<close>.\<close>

definition schur :: "vec \<Rightarrow> vec \<Rightarrow> vec" where
  "schur u v = map2 (*) u v"

definition vadd :: "vec \<Rightarrow> vec \<Rightarrow> vec" where
  "vadd u v = map2 (+) u v"

definition vsub :: "vec \<Rightarrow> vec \<Rightarrow> vec" where
  "vsub u v = map2 (-) u v"

definition vscale :: "real \<Rightarrow> vec \<Rightarrow> vec" where
  "vscale c v = map (\<lambda>x. c * x) v"

definition vshift :: "vec \<Rightarrow> real \<Rightarrow> vec" where
  "vshift v c = map (\<lambda>x. x + c) v"

definition vunshift :: "vec \<Rightarrow> real \<Rightarrow> vec" where
  "vunshift v c = map (\<lambda>x. x - c) v"

definition zeros :: "nat \<Rightarrow> vec" where
  "zeros n = replicate n 0"

text \<open>
  A matrix is the list of its rows. The number of columns is read from the first row; inside
  the DAL iteration every matrix has at least one row (\<^verbatim>\<open>n_var \<ge> 2\<close>).
\<close>

definition n_cols :: "mat \<Rightarrow> nat" where
  "n_cols M = (case M of [] \<Rightarrow> 0 | r # _ \<Rightarrow> length r)"

text \<open>\<^verbatim>\<open>M * v\<close>: one inner product per row.\<close>

definition mat_vec :: "mat \<Rightarrow> vec \<Rightarrow> vec" where
  "mat_vec M v = map (\<lambda>r. dot r v) M"

text \<open>\<^verbatim>\<open>M.t() * v\<close>: the combination of the rows of \<open>M\<close> with the coefficients \<open>v\<close>.\<close>

definition mat_t_vec :: "mat \<Rightarrow> vec \<Rightarrow> vec" where
  "mat_t_vec M v = foldl vadd (zeros (n_cols M)) (map2 vscale v M)"

text \<open>\<^verbatim>\<open>M.each_row() % w.t()\<close>.\<close>

definition each_row_schur :: "mat \<Rightarrow> vec \<Rightarrow> mat" where
  "each_row_schur M w = map (\<lambda>r. schur r w) M"

text \<open>\<^verbatim>\<open>u * v.t()\<close>, the outer product.\<close>

definition outer :: "vec \<Rightarrow> vec \<Rightarrow> mat" where
  "outer u v = map (\<lambda>x. vscale x v) u"

text \<open>\<^verbatim>\<open>find(beta)\<close>: the indices of the non-zero elements, ascending.\<close>

definition find_nz :: "vec \<Rightarrow> uvec" where
  "find_nz b = filter (\<lambda>i. b ! i \<noteq> 0) [0..<length b]"

text \<open>
  \<^verbatim>\<open>M.rows(keep).t() * M.rows(keep)\<close>: entry \<open>(i, j)\<close> sums, over the kept rows, the product
  of their \<open>i\<close>-th and \<open>j\<close>-th elements. With no kept row it is the zero matrix of size
  \<open>n_cols M\<close>.
\<close>

definition rows_gram :: "mat \<Rightarrow> uvec \<Rightarrow> mat" where
  "rows_gram M keep =
     map (\<lambda>i. map (\<lambda>j. sum_list (map (\<lambda>k. (M ! k) ! i * (M ! k) ! j) keep)) [0..<n_cols M])
       [0..<n_cols M]"

definition mat_scale :: "real \<Rightarrow> mat \<Rightarrow> mat" where
  "mat_scale c M = map (vscale c) M"

definition madd :: "mat \<Rightarrow> mat \<Rightarrow> mat" where
  "madd A B = map2 vadd A B"

text \<open>\<^verbatim>\<open>M += c\<close> (every element) and \<^verbatim>\<open>M.diag() += c\<close>.\<close>

definition madd_scalar :: "mat \<Rightarrow> real \<Rightarrow> mat" where
  "madd_scalar M c = map (\<lambda>r. vshift r c) M"

definition diag_add :: "mat \<Rightarrow> real \<Rightarrow> mat" where
  "diag_add M c = map (\<lambda>i. (M ! i)[i := (M ! i) ! i + c]) [0..<length M]"

section \<open>Shared primitives of \<^verbatim>\<open>ENDal.cpp\<close>\<close>

text \<open>\<^verbatim>\<open>softThreshold\<close>, lines 768-776 of \<^verbatim>\<open>IRWEN.cpp\<close>.\<close>

definition softThreshold :: "real \<Rightarrow> real \<Rightarrow> real" where
  "softThreshold z gamma =
     (if \<bar>z\<bar> \<le> gamma then 0
      else if z < 0 then z + gamma
      else z - gamma)"

text \<open>\<^verbatim>\<open>vecSoftThreshold\<close>: the iterator loop overwrites each element in turn.\<close>

fun vecSoftThreshold :: "vec \<Rightarrow> real \<Rightarrow> vec" where
  "vecSoftThreshold [] gamma = []"
| "vecSoftThreshold (z # zs) gamma = softThreshold z gamma # vecSoftThreshold zs gamma"

text \<open>
  \<^verbatim>\<open>vecSoftThresholdInplace\<close>: \<open>zsoft\<close> gets the size of \<open>z1\<close>, the loop reads \<open>z1\<close> and
  \<open>z2\<close> in step. The callers pass vectors of equal length.
\<close>

fun vecSoftThresholdInplace :: "vec \<Rightarrow> real \<Rightarrow> vec \<Rightarrow> real \<Rightarrow> vec" where
  "vecSoftThresholdInplace (u # z1) c (v # z2) gamma =
     softThreshold (u + c * v) gamma # vecSoftThresholdInplace z1 c z2 gamma"
| "vecSoftThresholdInplace z1 c z2 gamma = []"

definition lossDual :: "vec \<Rightarrow> vec \<Rightarrow> bool \<Rightarrow> real" where
  "lossDual av yv aNeg =
     (if aNeg then 0.5 * dot av av - dot av yv else 0.5 * dot av av + dot av yv)"

definition squaredL2Norm :: "vec \<Rightarrow> real" where
  "squaredL2Norm x = (let tmp = norm2 x in tmp * tmp)"

section \<open>The state of an \<^verbatim>\<open>ENDal\<close> object\<close>

text \<open>
  The member variables of \<^verbatim>\<open>ENDal\<close> (and \<open>intercept\<close>, \<open>status\<close>, \<open>statusMessage\<close> of
  its base class). \<open>this_y\<close> and \<open>Xtr\<close> are the objects the pointers \<^verbatim>\<open>this->y\<close> and
  \<^verbatim>\<open>this->Xtr\<close> point to at the moment (the empty vector and matrix stand for \<^verbatim>\<open>NULL\<close>,
  which is never dereferenced since the buffer sizes are then 0); \<open>this_a\<close> is the dual
  vector \<^verbatim>\<open>this->a\<close>; \<open>eta0\<close> and \<open>eta1\<close> are \<^verbatim>\<open>eta[0]\<close> and \<^verbatim>\<open>eta[1]\<close>.
\<close>

record ENDal =
  intercept :: bool
  status :: int
  statusMessage :: string
  maxIt :: int
  eps :: real
  warmStart :: bool
  etaStart :: real
  etaStartNumerator :: real
  etaMultiplier :: real
  useHessBuffer :: bool
  bufferSizeNobs :: nat
  bufferSizeNvar :: nat
  this_y :: vec
  Xtr :: mat
  useWeights :: bool
  sqrtWeights :: vec
  sqrtWeightsOuter :: mat
  this_a :: vec
  eta0 :: real
  eta1 :: real
  nLambda :: real
  lambda :: real
  alpha :: real
  hessBuff :: mat
  hessBuffKeep :: uvec

text \<open>\<^verbatim>\<open>ENDal::setLambdas\<close>, lines 231-238.\<close>

definition setLambdas :: "real \<Rightarrow> real \<Rightarrow> ENDal \<Rightarrow> ENDal" where
  "setLambdas lambda1 lambda2 s =
     (let s1 = s\<lparr>lambda := lambda2 + lambda1\<rparr>;
          s2 = s1\<lparr>alpha := lambda1 / (lambda2 + lambda1)\<rparr>
      in if lambda2 = 0 \<and> lambda1 = 0 then s2\<lparr>alpha := 0\<rparr> else s2)"

definition setAlphaLambda :: "real \<Rightarrow> real \<Rightarrow> ENDal \<Rightarrow> ENDal" where
  "setAlphaLambda al la s = s\<lparr>alpha := al, lambda := la\<rparr>"

text \<open>
  The constructor \<^verbatim>\<open>ENDal::ENDal(const bool intercept)\<close>, lines 177-191, with the default
  option values of lines 122-128. Members the constructor leaves uninitialised
  (\<^verbatim>\<open>eta\<close>, \<^verbatim>\<open>nLambda\<close>, \<^verbatim>\<open>lambda\<close>, \<^verbatim>\<open>alpha\<close>) are 0 here; each is assigned before it is read.
\<close>

definition ENDal_new :: "bool \<Rightarrow> ENDal" where
  "ENDal_new icpt =
     \<lparr>intercept = icpt, status = 0, statusMessage = [],
      maxIt = 100, eps = 1 / 100000, warmStart = True, etaStart = -1,
      etaStartNumerator = 1 / 100, etaMultiplier = 2, useHessBuffer = True,
      bufferSizeNobs = 0, bufferSizeNvar = 0, this_y = [], Xtr = [],
      useWeights = False, sqrtWeights = [1], sqrtWeightsOuter = [],
      this_a = [], eta0 = 0, eta1 = 0, nLambda = 0, lambda = 0, alpha = 0,
      hessBuff = [], hessBuffKeep = []\<rparr>"

section \<open>\<^verbatim>\<open>ENDal\<close>: data, objective, gradient and Hessian\<close>

text \<open>
  The dataset of \<^verbatim>\<open>Data.hpp\<close> as \<^verbatim>\<open>ENDal::setData\<close> reads it: the two sizes, the response,
  and the transposed design matrix \<^verbatim>\<open>getXtrConst()\<close> (\<open>numVar\<close> rows of \<open>numObs\<close> elements,
  the first row the intercept column).
\<close>

record Data =
  numObs :: nat
  numVar :: nat
  getY :: vec
  getXtr :: mat

definition zeros_mat :: "nat \<Rightarrow> nat \<Rightarrow> mat" where
  "zeros_mat r c = replicate r (zeros c)"

text \<open>\<^verbatim>\<open>ENDal::setData\<close>, lines 266-303. \<^verbatim>\<open>shed_row(0)\<close> drops the intercept row.\<close>

definition setData :: "Data \<Rightarrow> ENDal \<Rightarrow> ENDal" where
  "setData d s =
     (let s1 = s\<lparr>bufferSizeNvar := numVar d\<rparr>;
          s2 = (if numObs d > 0 \<or> numVar d > 0
                then s1\<lparr>this_y := take (numObs d) (getY d),
                        Xtr := (if numVar d > 0 then tl (getXtr d) else getXtr d)\<rparr>
                else s1\<lparr>this_y := [], Xtr := []\<rparr>);
          s3 = (if numObs d \<noteq> bufferSizeNobs s2
                then s2\<lparr>this_a := map uminus (this_y s2), bufferSizeNobs := numObs d\<rparr>
                else s2)
      in if useHessBuffer s3
         then s3\<lparr>hessBuffKeep := [],
                 hessBuff := zeros_mat (bufferSizeNobs s3) (bufferSizeNobs s3)\<rparr>
         else s3)"

text \<open>\<^verbatim>\<open>ENDal::fullObjectiveFun\<close>, lines 246-264.\<close>

definition fullObjectiveFun :: "ENDal \<Rightarrow> real \<Rightarrow> vec \<Rightarrow> real" where
  "fullObjectiveFun s icpt beta =
     (let objf = nLambda s *
            (0.5 * (1 - alpha s) * squaredL2Norm beta + alpha s * norm1 beta)
      in if intercept s then
           (if useWeights s
            then objf + 0.5 * squaredL2Norm
                   (vsub (vadd (mat_t_vec (Xtr s) beta) (vscale icpt (sqrtWeights s))) (this_y s))
            else objf + 0.5 * squaredL2Norm
                   (vsub (vshift (mat_t_vec (Xtr s) beta) icpt) (this_y s)))
         else objf + 0.5 * squaredL2Norm (vsub (mat_t_vec (Xtr s) beta) (this_y s)))"

text \<open>
  \<^verbatim>\<open>ENDal::evalPhiGrad\<close>, lines 657-675. The \<^verbatim>\<open>switch\<close> on
  \<^verbatim>\<open>intercept + 2 * useWeights\<close> has the cases 1 (intercept, no weights) and 3 (intercept
  and weights); 0 and 2 fall to the default.
\<close>

definition evalPhiGrad :: "ENDal \<Rightarrow> vec \<Rightarrow> vec \<Rightarrow> real \<Rightarrow> real \<Rightarrow> vec" where
  "evalPhiGrad s av beta icpt multFact =
     (let grad = vadd (vsub av (this_y s)) (vscale multFact (mat_t_vec (Xtr s) beta))
      in if intercept s \<and> \<not> useWeights s then vshift grad icpt
         else if intercept s \<and> useWeights s then vadd grad (vscale icpt (sqrtWeights s))
         else grad)"

text \<open>
  \<^verbatim>\<open>ENDal::getHessBuff\<close>, lines 758-765. The test
  \<^verbatim>\<open>size(keep) != size(hessBuffKeep) || any(keep - hessBuffKeep)\<close> compares the sizes and then
  the elements: the unsigned difference of two indices is non-zero exactly when they differ.
\<close>

definition uvec_differs :: "uvec \<Rightarrow> uvec \<Rightarrow> bool" where
  "uvec_differs keep key =
     (length keep \<noteq> length key \<or> list_ex (\<lambda>(k, h). k \<noteq> h) (zip keep key))"

definition getHessBuff :: "ENDal \<Rightarrow> uvec \<Rightarrow> ENDal \<times> mat" where
  "getHessBuff s keep =
     (let s1 = (if uvec_differs keep (hessBuffKeep s)
                then s\<lparr>hessBuff := rows_gram (Xtr s) keep, hessBuffKeep := keep\<rparr>
                else s)
      in (s1, hessBuff s1))"

text \<open>\<^verbatim>\<open>ENDal::evalPhiHess\<close>, lines 677-702; it returns the object as well, since \<open>getHessBuff\<close> writes the buffer.\<close>

definition evalPhiHess :: "ENDal \<Rightarrow> vec \<Rightarrow> vec \<Rightarrow> real \<Rightarrow> real \<Rightarrow> ENDal \<times> mat" where
  "evalPhiHess s av beta icpt multFact =
     (let keep = find_nz beta;
          (s1, G) = (if useHessBuffer s then getHessBuff s keep
                     else (s, rows_gram (Xtr s) keep));
          hess = diag_add (mat_scale (eta0 s1 * multFact) G) 1
      in if intercept s1 \<and> \<not> useWeights s1 then (s1, madd_scalar hess (eta1 s1))
         else if intercept s1 \<and> useWeights s1
           then (s1, madd hess (mat_scale (eta1 s1) (sqrtWeightsOuter s1)))
         else (s1, hess))"

section \<open>\<^verbatim>\<open>ENDal::minimizePhi\<close>\<close>

text \<open>
  Lines 556-568 and again 626-638: \<open>beta\<close> from the candidate dual vector, the value of phi,
  and the intercept (left as it is when no intercept is modelled).
\<close>

definition phiValue :: "ENDal \<Rightarrow> vec \<Rightarrow> real \<Rightarrow> real \<Rightarrow> real \<Rightarrow> vec \<Rightarrow> vec \<Rightarrow> real
    \<Rightarrow> vec \<times> real \<times> real" where
  "phiValue s betaOrig interceptOrig cutoff multFact candA Xtra icpt =
     (let beta = vecSoftThresholdInplace betaOrig (eta0 s) Xtra cutoff;
          phiVal = lossDual candA (this_y s) True
                   + (0.5 / eta0 s) * multFact * squaredL2Norm beta
      in if intercept s then
           (let icpt1 = interceptOrig + eta1 s *
                  (if useWeights s then accu (schur (sqrtWeights s) candA) else accu candA)
            in (beta, icpt1, phiVal + (0.5 / eta1 s) * icpt1 * icpt1))
         else (beta, icpt, phiVal))"

definition LINESEARCH_STEPSIZE_MULTIPLIER :: real where
  "LINESEARCH_STEPSIZE_MULTIPLIER = 0.8"

definition LINESEARCH_STEP_CONDITION :: real where
  "LINESEARCH_STEP_CONDITION = 0.3"

definition LINESEARCH_MAX_STEP :: nat where
  "LINESEARCH_MAX_STEP = 20"

text \<open>
  The backtracking line search, lines 625-648. \<open>k\<close> is \<open>lineSearchIter\<close> before the
  increment of the loop test. The result is \<open>(candA, Xtra, beta, intercept)\<close>.
\<close>

function lineSearch :: "ENDal \<Rightarrow> vec \<Rightarrow> real \<Rightarrow> real \<Rightarrow> real \<Rightarrow> real \<Rightarrow> real \<Rightarrow> vec \<Rightarrow> vec
    \<Rightarrow> nat \<Rightarrow> real \<Rightarrow> vec \<Rightarrow> vec \<Rightarrow> vec \<Rightarrow> real \<Rightarrow> vec \<times> vec \<times> vec \<times> real" where
  "lineSearch s betaOrig interceptOrig cutoff multFact phiVal decr stepDir XtrStepDir
       k stepSize candA Xtra beta icpt =
     (if k + 1 \<le> LINESEARCH_MAX_STEP then
        (let (beta1, icpt1, phiValStep) =
               phiValue s betaOrig interceptOrig cutoff multFact candA Xtra icpt
         in if phiValStep < phiVal - LINESEARCH_STEP_CONDITION * stepSize * decr
            then (candA, Xtra, beta1, icpt1)
            else
              (let stepSizePrev = stepSize;
                   stepSize1 = stepSize * LINESEARCH_STEPSIZE_MULTIPLIER
               in lineSearch s betaOrig interceptOrig cutoff multFact phiVal decr stepDir
                    XtrStepDir (k + 1) stepSize1
                    (vsub candA (vscale (stepSize1 - stepSizePrev) stepDir))
                    (vsub Xtra (vscale (stepSize1 - stepSizePrev) XtrStepDir))
                    beta1 icpt1))
      else (candA, Xtra, beta, icpt))"
  by pat_completeness auto
termination
  by (relation "measure (\<lambda>(s, bo, io, c, m, pv, d, sd, xsd, k, r). LINESEARCH_MAX_STEP - k)") auto

text \<open>
  The Newton loop, lines 555-649. \<open>solve\<close> is Armadillo's
  \<^verbatim>\<open>solve(A, b, solve_opts::fast + solve_opts::no_approx)\<close>, a parameter of the model. The loop
  state is the object (of which only the Hessian buffer changes), \<open>iter\<close>, \<open>candA\<close>, \<open>Xtra\<close>
  and the intercept; \<open>beta\<close> is overwritten at the head of every pass. The result is
  \<open>(this, iter, candA, beta, intercept)\<close>.
\<close>

function newtonLoop :: "(mat \<Rightarrow> vec \<Rightarrow> vec) \<Rightarrow> vec \<Rightarrow> real \<Rightarrow> real \<Rightarrow> real
    \<Rightarrow> ENDal \<Rightarrow> int \<Rightarrow> vec \<Rightarrow> vec \<Rightarrow> real \<Rightarrow> ENDal \<times> int \<times> vec \<times> vec \<times> real" where
  "newtonLoop solve betaOrig interceptOrig cutoff multFact s iter candA Xtra icpt =
     (let (beta, icpt1, phiVal) =
            phiValue s betaOrig interceptOrig cutoff multFact candA Xtra icpt;
          phiGradient = evalPhiGrad s candA beta icpt1 multFact;
          iter1 = iter + 1
      in if iter1 > maxIt s then (s, iter1, candA, beta, icpt1)
         else
           (let normGradient = squaredL2Norm phiGradient;
                threshold0 = (1 / eta0 s) * squaredL2Norm (vsub betaOrig beta);
                threshold1 = (if intercept s
                              then (let normDiffInt = interceptOrig - icpt1
                                    in threshold0 + (1 / eta1 s) * normDiffInt * normDiffInt)
                              else threshold0);
                threshold = (if threshold1 < eps s then 0.5 * eps s else threshold1)
            in if iter1 > 1 \<and> normGradient < threshold then (s, iter1, candA, beta, icpt1)
               else
                 (let (s1, phiHessian) = evalPhiHess s candA beta icpt1 multFact;
                      stepDir = solve phiHessian phiGradient;
                      decr = dot stepDir phiGradient;
                      XtrStepDir = mat_vec (Xtr s1) stepDir;
                      (candA2, Xtra2, beta2, icpt2) =
                         lineSearch s1 betaOrig interceptOrig cutoff multFact phiVal decr
                           stepDir XtrStepDir 0 1
                           (vsub candA stepDir) (vsub Xtra XtrStepDir) beta icpt1
                  in newtonLoop solve betaOrig interceptOrig cutoff multFact
                       s1 iter1 candA2 Xtra2 icpt2)))"
  by pat_completeness auto
termination
  by (relation "measure (\<lambda>(sv, bo, io, c, m, s, iter, r). nat (maxIt s + 1 - iter))")
     (auto simp: evalPhiHess_def getHessBuff_def Let_def split: if_splits prod.splits)

text \<open>
  \<^verbatim>\<open>ENDal::minimizePhi\<close>, lines 535-655: \<open>(this, beta, intercept, success)\<close>. The loop changes
  no member but the Hessian buffer, and the function then stores \<open>candA\<close> in \<open>a\<close>; the result
  is written as an update of the entry object by these three members.
\<close>

definition minimizePhi :: "(mat \<Rightarrow> vec \<Rightarrow> vec) \<Rightarrow> ENDal \<Rightarrow> vec \<Rightarrow> real
    \<Rightarrow> ENDal \<times> vec \<times> real \<times> bool" where
  "minimizePhi solve s beta icpt =
     (let cutoff = nLambda s * eta0 s * alpha s;
          multFact = 1 / (1 + nLambda s * eta0 s * (1 - alpha s));
          betaOrig = beta;
          interceptOrig = icpt;
          (s1, iter, candA, beta1, icpt1) =
             newtonLoop solve betaOrig interceptOrig cutoff multFact
               s 0 (this_a s) (mat_vec (Xtr s) (this_a s)) icpt
      in (s\<lparr>this_a := candA, hessBuff := hessBuff s1, hessBuffKeep := hessBuffKeep s1\<rparr>,
          vscale multFact beta1, icpt1, iter \<le> maxIt s))"

section \<open>\<^verbatim>\<open>ENDal::dal\<close>\<close>

text \<open>
  The value of the dual objective. For \<open>lambda = 0\<close> and \<open>alpha < 1\<close> the factor
  \<^verbatim>\<open>updateDenomMult = 1 / (nLambda * (1 - alpha))\<close> of line 395 is \<open>+inf\<close>, and the dual
  objective is \<open>+inf\<close> or NaN. \<open>dv_gt\<close> and \<open>dv_le\<close> are the comparisons \<^verbatim>\<open>>\<close> and \<^verbatim>\<open><=\<close> of
  IEEE doubles: false whenever an operand is NaN.
\<close>

datatype dual_value = Finite real | PlusInf | NaN

fun dv_gt :: "dual_value \<Rightarrow> dual_value \<Rightarrow> bool" where
  "dv_gt (Finite x) (Finite y) = (x > y)"
| "dv_gt PlusInf (Finite y) = True"
| "dv_gt u v = False"

fun dv_le :: "dual_value \<Rightarrow> dual_value \<Rightarrow> bool" where
  "dv_le (Finite x) (Finite y) = (x \<le> y)"
| "dv_le (Finite x) PlusInf = True"
| "dv_le PlusInf PlusInf = True"
| "dv_le u v = False"

text \<open>
  The local variables of \<^verbatim>\<open>dal\<close> that live across passes of its loop, the two reference
  parameters \<open>intercept\<close> and \<open>beta\<close>, and the lines the \<^verbatim>\<open>DEBUG\<close> build prints in every pass
  (lines 489-497: \<open>iter\<close>, the accepted dual value \<open>dval\<close>, \<open>eta\<close> and \<open>eta(int)\<close>), kept in
  the order they are printed.
\<close>

record dal_log =
  log_iter :: int
  log_dval :: dual_value
  log_eta :: real
  log_eta_int :: real

record dal_vars =
  iter :: int
  dualFunVal :: dual_value
  aL1Prev :: real
  v_intercept :: real
  v_beta :: vec
  debug_log :: "dal_log list"

text \<open>\<^verbatim>\<open>max(abs(v))\<close>; \<open>v\<close> is not empty inside \<^verbatim>\<open>dal\<close>.\<close>

definition max_abs :: "vec \<Rightarrow> real" where
  "max_abs v = (case map abs v of [] \<Rightarrow> 0 | x # xs \<Rightarrow> fold max xs x)"

text \<open>
  Lines 461-480: the centred dual vector and the dual objective. In the branch
  \<^verbatim>\<open>alpha == 1\<close> the factor is \<^verbatim>\<open>fmin(nLambda / max(abs(tmpInnerProd)), 1)\<close>; when the maximum
  is 0 and \<open>nLambda \<ge> 0\<close> the quotient is infinite or NaN and \<^verbatim>\<open>fmin\<close> returns 1. In the
  branch \<^verbatim>\<open>alpha < 1\<close> the product \<open>nLambda * (1 - alpha)\<close> is 0 exactly when \<open>nLambda\<close> is
  (\<open>lambda = 0\<close>): \<open>updateDenomMult\<close> is then \<open>+inf\<close>, and the term
  \<^verbatim>\<open>0.5 * squaredL2Norm(tmpInnerProd) * updateDenomMult\<close> is NaN when the squared norm is 0
  and \<open>+inf\<close> otherwise; so is the sum with the finite \<open>lossDual\<close>.
\<close>

definition dualObjective :: "ENDal \<Rightarrow> dual_value" where
  "dualObjective s =
     (let la = nLambda s * alpha s;
          updateDenomMult = 1 / (nLambda s * (1 - alpha s));
          dualVec = (if intercept s then
                       (if useWeights s
                        then vsub (this_a s)
                               (vscale (mean (schur (sqrtWeights s) (this_a s))) (sqrtWeights s))
                        else vunshift (this_a s) (mean (this_a s)))
                     else this_a s);
          tmpInnerProd = mat_vec (Xtr s) dualVec
      in if alpha s < 1 then
           (let sq = squaredL2Norm (vecSoftThreshold tmpInnerProd la)
            in if nLambda s * (1 - alpha s) = 0
               then (if sq = 0 then NaN else PlusInf)
               else Finite (lossDual dualVec (this_y s) True + 0.5 * sq * updateDenomMult))
         else
           (let mx = max_abs tmpInnerProd;
                dualVec1 = vscale (if mx = 0 then 1 else min (nLambda s / mx) 1) dualVec
            in Finite (lossDual dualVec1 (this_y s) True)))"

text \<open>
  Lines 482-484, the guard on the dual objective: from the second pass on (\<open>iter > 0\<close>) a
  value above the previous one is replaced by the previous one. The comparison is false for
  NaN, which is therefore kept.
\<close>

definition acceptDual :: "int \<Rightarrow> dual_value \<Rightarrow> dual_value \<Rightarrow> dual_value" where
  "acceptDual it dualFunValNew dualFunValPrev =
     (if it > 0 \<and> dv_gt dualFunValNew dualFunValPrev then dualFunValPrev else dualFunValNew)"

text \<open>
  Lines 487 and 499: \<^verbatim>\<open>relativeDualityGap = (primalFunVal + dualFunVal) / primalFunVal\<close>
  and the test \<^verbatim>\<open>relativeDualityGap < eps\<close>. With a zero primal value the IEEE quotient is
  \<open>-inf\<close> for a negative dual value (the test holds) and \<open>+inf\<close> or NaN otherwise (it fails).
  With the dual value \<open>+inf\<close> the quotient is \<open>-inf\<close> for a negative primal value and \<open>+inf\<close>
  otherwise; with NaN it is NaN and the test fails.
\<close>

fun gapBelow :: "real \<Rightarrow> dual_value \<Rightarrow> real \<Rightarrow> bool" where
  "gapBelow primalFunVal (Finite d) e =
     (if primalFunVal = 0 then d < 0 else (primalFunVal + d) / primalFunVal < e)"
| "gapBelow primalFunVal PlusInf e = (primalFunVal < 0)"
| "gapBelow primalFunVal NaN e = False"

text \<open>
  Lines 513-525, the update of \<^verbatim>\<open>eta\<close> after \<open>minimizePhi\<close>; \<open>it\<close> is \<open>iter\<close> after its
  increment. The result is the object and the new \<open>aL1Prev\<close>.
\<close>

definition dualMass :: "ENDal \<Rightarrow> real" where
  "dualMass s = (if useWeights s then accu (schur (sqrtWeights s) (this_a s)) else accu (this_a s))"

definition updateEta :: "ENDal \<Rightarrow> int \<Rightarrow> real \<Rightarrow> ENDal \<times> real" where
  "updateEta s it aL1Prev0 =
     (let s1 = s\<lparr>eta0 := eta0 s * etaMultiplier s\<rparr>
      in if intercept s1 then
           (let aL1 = dualMass s1
            in if it > 1 \<and> aL1 > eps s1 \<and> aL1 > 0.5 * aL1Prev0
               then (s1\<lparr>eta1 := eta1 s1 * (10 * etaMultiplier s1)\<rparr>, aL1)
               else (s1\<lparr>eta1 := eta1 s1 * etaMultiplier s1\<rparr>, aL1))
         else (s1, aL1Prev0))"

text \<open>
  One pass of the loop of lines 457-526: \<open>Inl\<close> when the pass leaves the loop (the gap test
  or the iteration cap), \<open>Inr\<close> when it ran \<open>minimizePhi\<close> and the loop goes on.
\<close>

definition dal_pass :: "(mat \<Rightarrow> vec \<Rightarrow> vec) \<Rightarrow> ENDal \<Rightarrow> dal_vars
    \<Rightarrow> (ENDal \<times> dal_vars) + (ENDal \<times> dal_vars)" where
  "dal_pass solve s v =
     (let dualFunValPrev = dualFunVal v;
          dualFunVal1 = acceptDual (iter v) (dualObjective s) dualFunValPrev;
          primalFunVal = fullObjectiveFun s (v_intercept v) (v_beta v);
          v1 = v\<lparr>dualFunVal := dualFunVal1,
                 debug_log := debug_log v @
                   [\<lparr>log_iter = iter v, log_dval = dualFunVal1,
                     log_eta = eta0 s, log_eta_int = eta1 s\<rparr>]\<rparr>
      in if gapBelow primalFunVal dualFunVal1 (eps s) then Inl (s, v1)
         else
           (let v2 = v1\<lparr>iter := iter v1 + 1\<rparr>
            in if iter v2 > maxIt s then Inl (s, v2)
               else
                 (let (s1, beta1, icpt1, ok) = minimizePhi solve s (v_beta v2) (v_intercept v2);
                      (s2, aL1) = updateEta s1 (iter v2) (aL1Prev v2)
                  in Inr (s2, v2\<lparr>v_beta := beta1, v_intercept := icpt1, aL1Prev := aL1\<rparr>))))"

function dal_loop :: "(mat \<Rightarrow> vec \<Rightarrow> vec) \<Rightarrow> ENDal \<Rightarrow> dal_vars \<Rightarrow> ENDal \<times> dal_vars" where
  "dal_loop solve s v =
     (case dal_pass solve s v of
        Inl r \<Rightarrow> r
      | Inr (s1, v1) \<Rightarrow> dal_loop solve s1 v1)"
  by pat_completeness auto
termination
proof (relation "measure (\<lambda>(sv, s, v). nat (maxIt s + 1 - iter v))")
  show "wf (measure (\<lambda>(sv :: mat \<Rightarrow> vec \<Rightarrow> vec, s, v). nat (maxIt s + 1 - iter v)))"
    by simp
next
  fix solve :: "mat \<Rightarrow> vec \<Rightarrow> vec" and s v x2 s1 v1
  assume pass: "dal_pass solve s v = Inr x2" and x2: "(s1, v1) = x2"
  obtain sa ba ia ok where m: "minimizePhi solve s (v_beta v) (v_intercept v) = (sa, ba, ia, ok)"
    by (metis prod_cases4)
  obtain sb al where u: "updateEta sa (iter v + 1) (aL1Prev v) = (sb, al)"
    by fastforce
  have "maxIt (fst (minimizePhi solve s (v_beta v) (v_intercept v))) = maxIt s"
    by (simp add: minimizePhi_def Let_def split: prod.splits)
  then have ma: "maxIt sa = maxIt s"
    using m by simp
  have "maxIt (fst (updateEta sa (iter v + 1) (aL1Prev v))) = maxIt sa"
    by (simp add: updateEta_def Let_def)
  then have mb: "maxIt sb = maxIt sa"
    using u by simp
  have "iter v1 = iter v + 1 \<and> iter v + 1 \<le> maxIt s \<and> maxIt s1 = maxIt s"
    using pass x2 m u ma mb by (auto simp: dal_pass_def Let_def split: if_splits)
  then show "((solve, s1, v1), solve, s, v) \<in> measure (\<lambda>(sv, s, v). nat (maxIt s + 1 - iter v))"
    by simp
qed

text \<open>
  \<^verbatim>\<open>ENDal::dal\<close>, lines 390-532, in two parts: \<open>dal_start\<close> is the code before the loop
  (lines 392-450). The first step size is
  \<^verbatim>\<open>etaStartNumerator / nLambda\<close> capped at \<open>1e6\<close>; for \<open>nLambda = 0\<close> and a positive
  numerator the quotient is \<open>+inf\<close> and the cap applies. The result is the object, the
  intercept, \<open>beta\<close> and the debug log.
\<close>

definition dal_start :: "ENDal \<Rightarrow> real \<Rightarrow> vec \<Rightarrow> ENDal \<times> real \<times> vec" where
  "dal_start s icpt beta =
     (let nobs = length (this_y s);
          s1 = s\<lparr>nLambda := real nobs * lambda s\<rparr>;
          s2 = (if etaStart s1 > 0 then s1\<lparr>eta0 := etaStart s1\<rparr>
                else if nLambda s1 = 0 \<and> etaStartNumerator s1 > 0 then s1\<lparr>eta0 := 1000000\<rparr>
                else (let e = etaStartNumerator s1 / nLambda s1
                      in if e > 1000000 then s1\<lparr>eta0 := 1000000\<rparr> else s1\<lparr>eta0 := e\<rparr>));
          s3 = s2\<lparr>eta1 := eta0 s2\<rparr>;
          icpt1 = (if intercept s3 then icpt else 0)
      in if warmStart s3 then
           (let a1 = vsub (this_y s3) (mat_t_vec (Xtr s3) beta)
            in if intercept s3 then
                 (if useWeights s3 then
                    (let icpt2 = mean (schur (sqrtWeights s3) a1)
                     in (s3\<lparr>this_a := vsub a1 (vscale icpt2 (sqrtWeights s3))\<rparr>, icpt2, beta))
                  else
                    (let icpt2 = mean a1
                     in (s3\<lparr>this_a := vunshift a1 icpt2\<rparr>, icpt2, beta)))
               else (s3\<lparr>this_a := a1\<rparr>, 0, beta))
         else
           (let beta0 = zeros (length beta)
            in if intercept s3 then
                 (if useWeights s3 then
                    (let icpt2 = mean (schur (sqrtWeights s3) (this_y s3))
                     in (s3\<lparr>this_a := vsub (this_y s3) (vscale icpt2 (sqrtWeights s3))\<rparr>,
                         icpt2, beta0))
                  else
                    (let icpt2 = mean (this_y s3)
                     in (s3\<lparr>this_a := vunshift (this_y s3) icpt2\<rparr>, icpt2, beta0)))
               else (s3\<lparr>this_a := this_y s3\<rparr>, icpt1, beta0)))"

text \<open>Lines 452-455: the loop variables before the first pass.\<close>

definition dal_vars0 :: "real \<Rightarrow> vec \<Rightarrow> dal_vars" where
  "dal_vars0 icpt beta =
     \<lparr>iter = 0, dualFunVal = Finite 0, aL1Prev = 0, v_intercept = icpt, v_beta = beta,
      debug_log = []\<rparr>"

definition dal :: "(mat \<Rightarrow> vec \<Rightarrow> vec) \<Rightarrow> ENDal \<Rightarrow> real \<Rightarrow> vec
    \<Rightarrow> ENDal \<times> real \<times> vec \<times> dal_log list" where
  "dal solve s icpt beta =
     (let (s1, icpt1, beta1) = dal_start s icpt beta;
          (s2, v) = dal_loop solve s1 (dal_vars0 icpt1 beta1);
          s3 = (if iter v > maxIt s2
                then s2\<lparr>status := 1, statusMessage := ''algorithm did not converge''\<rparr>
                else s2)
      in (s3, v_intercept v, v_beta v, debug_log v))"

section \<open>\<^verbatim>\<open>ENDal::computeCoefs\<close> and \<^verbatim>\<open>ENDal::computeCoefsWeighted\<close>\<close>

text \<open>
  The callers' buffers \<^verbatim>\<open>coefs\<close> and \<^verbatim>\<open>resids\<close> are lists; the functions write through the
  views \<open>intercept = coefs[0]\<close>, \<open>beta = coefs[1 .. n_var - 1]\<close> and
  \<open>residuals = resids[0 .. n_obs - 1]\<close>. \<open>write_buf new old\<close> overwrites the leading elements
  of a buffer. As \<^verbatim>\<open>ElasticNet.hpp\<close> documents, \<open>coefs\<close> is assumed to hold at least \<open>n_var\<close>
  elements and \<open>resids\<close> at least \<open>n_obs\<close>.
\<close>

definition write_buf :: "vec \<Rightarrow> vec \<Rightarrow> vec" where
  "write_buf new old = new @ drop (length new) old"

definition dal_residuals :: "bool \<Rightarrow> vec \<Rightarrow> mat \<Rightarrow> real \<Rightarrow> vec \<Rightarrow> vec" where
  "dal_residuals withIntercept yv X icpt beta =
     (if withIntercept then vsub (vunshift yv icpt) (mat_t_vec X beta)
      else vsub yv (mat_t_vec X beta))"

text \<open>\<^verbatim>\<open>ENDal::computeCoefs\<close>, lines 352-388.\<close>

definition computeCoefs :: "(mat \<Rightarrow> vec \<Rightarrow> vec) \<Rightarrow> ENDal \<Rightarrow> vec \<Rightarrow> vec \<Rightarrow> ENDal \<times> vec \<times> vec" where
  "computeCoefs solve s coefs resids =
     (if bufferSizeNvar s = 0 then
        (if bufferSizeNobs s > 0 then (s, coefs, write_buf (this_y s) resids)
         else (s, coefs, resids))
      else if bufferSizeNvar s = 1 \<or> bufferSizeNobs s = 0 then
        (let icpt = (if bufferSizeNobs s > 0 then mean (this_y s) else 0)
         in (s, write_buf (icpt # zeros (bufferSizeNvar s - 1)) coefs,
             write_buf (vunshift (this_y s) icpt) resids))
      else
        (let s1 = s\<lparr>useWeights := False\<rparr>;
             (s2, icpt, beta, lg) =
                dal solve s1 (coefs ! 0) (take (bufferSizeNvar s - 1) (drop 1 coefs));
             s3 = s2\<lparr>useWeights := False\<rparr>
         in (s3, write_buf (icpt # beta) coefs,
             write_buf (dal_residuals (intercept s3) (this_y s3) (Xtr s3) icpt beta) resids)))"

text \<open>
  \<^verbatim>\<open>ENDal::computeCoefsWeighted\<close>, lines 305-350. \<open>origY\<close> and \<open>origXtr\<close> are the saved
  pointers; the weighted copies are local to the call.
\<close>

definition computeCoefsWeighted :: "(mat \<Rightarrow> vec \<Rightarrow> vec) \<Rightarrow> ENDal \<Rightarrow> vec \<Rightarrow> vec \<Rightarrow> vec
    \<Rightarrow> ENDal \<times> vec \<times> vec" where
  "computeCoefsWeighted solve s coefs resids weights =
     (let origY = this_y s; origXtr = Xtr s
      in if bufferSizeNvar s = 0 then
           (if bufferSizeNobs s > 0 then (s, coefs, write_buf (this_y s) resids)
            else (s, coefs, resids))
         else
           (let sw = map sqrt (take (bufferSizeNobs s) weights);
                s1 = s\<lparr>sqrtWeights := sw, sqrtWeightsOuter := outer sw sw, useWeights := True\<rparr>
            in if bufferSizeNvar s1 = 1 \<or> bufferSizeNobs s1 = 0 then
                 (let icpt = (if bufferSizeNobs s1 > 0
                              then mean (schur (sqrtWeights s1) (this_y s1)) else 0)
                  in (s1, write_buf (icpt # zeros (bufferSizeNvar s1 - 1)) coefs,
                      write_buf (vunshift (this_y s1) icpt) resids))
               else
                 (let weightedY = schur (this_y s1) (sqrtWeights s1);
                      weightedXtr = each_row_schur (Xtr s1) (sqrtWeights s1);
                      s2 = s1\<lparr>this_y := weightedY, Xtr := weightedXtr\<rparr>;
                      (s3, icpt, beta, lg) =
                         dal solve s2 (coefs ! 0) (take (bufferSizeNvar s - 1) (drop 1 coefs));
                      residuals = dal_residuals (intercept s3) origY origXtr icpt beta
                  in (s3\<lparr>this_y := origY, Xtr := origXtr, useWeights := False\<rparr>,
                      write_buf (icpt # beta) coefs, write_buf residuals resids))))"

section \<open>\<^verbatim>\<open>IRWEN\<close>, the iteratively re-weighted driver\<close>

text \<open>
  What \<^verbatim>\<open>IRWEN::compute\<close> uses and \<^verbatim>\<open>IRWEN.cpp\<close> does not define is a parameter of the
  model: the constant \<^verbatim>\<open>NUMERIC_EPS\<close> of \<^verbatim>\<open>config.h\<close>, \<^verbatim>\<open>computeResiduals\<close> of
  \<^verbatim>\<open>olsreg.h\<close>, the virtual \<^verbatim>\<open>updateWeights\<close> (it fills \<^verbatim>\<open>this->weights\<close> from the residuals),
  and the weighted elastic-net solver \<^verbatim>\<open>en\<close> behind the \<^verbatim>\<open>ElasticNet\<close> interface, an object of
  type \<open>'e\<close> with \<^verbatim>\<open>computeCoefsWeighted\<close> and \<^verbatim>\<open>getStatus\<close>.
\<close>

record 'e IRWEN_env =
  NUMERICAL_TOLERANCE :: real
  computeResiduals :: "Data \<Rightarrow> vec \<Rightarrow> vec"
  updateWeights :: "vec \<Rightarrow> vec \<Rightarrow> vec"
  en_computeCoefsWeighted :: "'e \<Rightarrow> vec \<Rightarrow> vec \<Rightarrow> vec \<Rightarrow> 'e \<times> vec \<times> vec"
  en_getStatus :: "'e \<Rightarrow> int"

text \<open>
  The members of \<^verbatim>\<open>IRWEN\<close>. \<open>n_warnings\<close> counts the calls of \<^verbatim>\<open>Rcpp::warning\<close>, which
  change nothing else.
\<close>

record 'e IRWEN =
  data :: Data
  irwen_maxIt :: int
  irwen_eps :: real
  this_weights :: vec
  en :: 'e
  iteration :: int
  relChangeVal :: real
  n_warnings :: nat

text \<open>
  The constructor, lines 21-33, as far as the members of \<^verbatim>\<open>IRWEN\<close> go: the options
  \<^verbatim>\<open>maxit\<close> and \<^verbatim>\<open>eps\<close> with their defaults of lines 16-17, \<open>eps\<close> stored squared. The solver
  \<open>e\<close> is the one \<^verbatim>\<open>getElasticNetImpl\<close> returned, configured and given the data.
\<close>

definition IRWEN_new :: "Data \<Rightarrow> int option \<Rightarrow> real option \<Rightarrow> 'e \<Rightarrow> 'e IRWEN" where
  "IRWEN_new d opt_maxit opt_eps e =
     \<lparr>data = d,
      irwen_maxIt = (case opt_maxit of None \<Rightarrow> 1000 | Some m \<Rightarrow> m),
      irwen_eps = (case opt_eps of None \<Rightarrow> 1 / 1000000 | Some x \<Rightarrow> x)
                  * (case opt_eps of None \<Rightarrow> 1 / 1000000 | Some x \<Rightarrow> x),
      this_weights = zeros (numObs d), en = e, iteration = 0, relChangeVal = 0, n_warnings = 0\<rparr>"

text \<open>Lines 75-81: the loop over the coefficients; the result is \<open>(relChangeVal, norm2Old)\<close>.\<close>

definition changeSums :: "nat \<Rightarrow> vec \<Rightarrow> vec \<Rightarrow> real \<times> real" where
  "changeSums n oldCoef currentCoef =
     fold (\<lambda>j (rc, norm2Old).
             (let tmp = oldCoef ! j - currentCoef ! j
              in (rc + tmp * tmp, norm2Old + oldCoef ! j * oldCoef ! j)))
       [0..<n] (0, 0)"

text \<open>Lines 83-93.\<close>

definition relChangeRule :: "real \<Rightarrow> real \<Rightarrow> real \<Rightarrow> real \<Rightarrow> real" where
  "relChangeRule tol e rc norm2Old =
     (if norm2Old < tol then (if rc < tol then 0 else 2 * e) else rc / norm2Old)"

text \<open>One pass of the body of the \<^verbatim>\<open>do\<close> loop, lines 53-93.\<close>

definition irwen_pass :: "'e IRWEN_env \<Rightarrow> 'e IRWEN \<Rightarrow> vec \<Rightarrow> vec \<Rightarrow> 'e IRWEN \<times> vec \<times> vec" where
  "irwen_pass E st currentCoef residuals =
     (let st1 = st\<lparr>iteration := iteration st + 1\<rparr>;
          st2 = st1\<lparr>this_weights := updateWeights E residuals (this_weights st1)\<rparr>;
          oldCoef = take (numVar (data st2)) currentCoef;
          (e1, currentCoef1, residuals1) =
             en_computeCoefsWeighted E (en st2) currentCoef residuals (this_weights st2);
          st3 = st2\<lparr>en := e1\<rparr>;
          st4 = (if en_getStatus E e1 > 0 then st3\<lparr>n_warnings := n_warnings st3 + 1\<rparr> else st3);
          (rc, norm2Old) = changeSums (numVar (data st4)) oldCoef currentCoef1
      in (st4\<lparr>relChangeVal := relChangeRule (NUMERICAL_TOLERANCE E) (irwen_eps st4) rc norm2Old\<rparr>,
          currentCoef1, residuals1))"

text \<open>The loop test of line 99.\<close>

definition irwen_continue :: "'e IRWEN \<Rightarrow> bool" where
  "irwen_continue st = (iteration st < irwen_maxIt st \<and> relChangeVal st > irwen_eps st)"

function irwen_loop :: "'e IRWEN_env \<Rightarrow> 'e IRWEN \<Rightarrow> vec \<Rightarrow> vec \<Rightarrow> 'e IRWEN \<times> vec \<times> vec" where
  "irwen_loop E st currentCoef residuals =
     (case irwen_pass E st currentCoef residuals of
        (st1, currentCoef1, residuals1) \<Rightarrow>
          if irwen_continue st1 then irwen_loop E st1 currentCoef1 residuals1
          else (st1, currentCoef1, residuals1))"
  by pat_completeness auto
termination
  by (relation "measure (\<lambda>(E, st, c, r). nat (irwen_maxIt st - iteration st))")
     (auto simp: irwen_pass_def irwen_continue_def Let_def split: prod.splits if_splits)

text \<open>\<^verbatim>\<open>IRWEN::compute\<close>, lines 41-102.\<close>

definition IRWEN_compute :: "'e IRWEN_env \<Rightarrow> 'e IRWEN \<Rightarrow> vec \<Rightarrow> vec \<Rightarrow> 'e IRWEN \<times> vec \<times> vec" where
  "IRWEN_compute E st currentCoef residuals =
     irwen_loop E (st\<lparr>iteration := 0\<rparr>) currentCoef
       (write_buf (computeResiduals E (data st) currentCoef) residuals)"

section \<open>\<^verbatim>\<open>CDPense\<close>, the coordinate-descent solver\<close>

text \<open>
  \<^verbatim>\<open>coordinate_descent.hpp\<close> (\<^verbatim>\<open>src/unnamed/part_001\<close>). The loss \<^verbatim>\<open>SLoss\<close> with its M-scale, the
  penalty, the data and the constants \<^verbatim>\<open>kNumericZero\<close> and \<^verbatim>\<open>kDefaultConvergenceTolerance\<close>
  come from headers that are not part of the sources: the loss is an object of a type \<open>'l\<close>,
  the penalty of a type \<open>'p\<close>, and what the optimizer calls on them is a parameter of the
  model, the record \<open>CD_env\<close>. A call that changes the internal state of the M-scale
  (\<^verbatim>\<open>EvaluateResiduals\<close>, \<^verbatim>\<open>mscale().SetInitial\<close>) returns the loss object as well. Metrics
  are diagnostics and are left out, with \<^verbatim>\<open>LastIterations\<close> that only feeds them.
\<close>

datatype cd_exception = logic_error string

record RegressionCoefficients =
  cf_intercept :: real
  cf_beta :: vec

text \<open>The result of \<^verbatim>\<open>EvaluateResiduals\<close>, read through \<^verbatim>\<open>.loss\<close> and \<^verbatim>\<open>.scale\<close>.\<close>

record EvalLoss =
  ev_loss :: real
  ev_scale :: real

text \<open>The data of the loss as the optimizer reads it: the sizes and the columns of \<^verbatim>\<open>cx()\<close>.\<close>

record PredictorData =
  d_n_obs :: nat
  d_n_pred :: nat
  d_cx :: "vec list"

record ('l, 'p) CD_env =
  kNumericZero :: real
  kDefaultConvergenceTolerance :: real
  EvaluateResiduals :: "'l \<Rightarrow> vec \<Rightarrow> EvalLoss \<times> 'l"
  Residuals :: "'l \<Rightarrow> RegressionCoefficients \<Rightarrow> vec"
  IncludeIntercept :: "'l \<Rightarrow> bool"
  ZeroCoefficients :: "'l \<Rightarrow> RegressionCoefficients"
  loss_data :: "'l \<Rightarrow> PredictorData"
  mscale_SetInitial :: "'l \<Rightarrow> real \<Rightarrow> 'l"
  mscale_delta :: "'l \<Rightarrow> real"
  rho_cc :: "'l \<Rightarrow> real"
  rho_Derivative :: "'l \<Rightarrow> vec \<Rightarrow> real \<Rightarrow> vec"
  pen_lambda :: "'p \<Rightarrow> real"
  pen_alpha :: "'p \<Rightarrow> real"
  pen_loadings :: "'p \<Rightarrow> vec"
  pen_Evaluate :: "'p \<Rightarrow> RegressionCoefficients \<Rightarrow> real"
  is_adaptive :: bool

record CDPenseConfiguration =
  max_it :: int
  linesearch_ss_multiplier :: real
  linesearch_ss_num :: int
  reset_iter :: int

definition kDefaultCDConfiguration :: CDPenseConfiguration where
  "kDefaultCDConfiguration =
     \<lparr>max_it = 1000, linesearch_ss_multiplier = 1 / 1000000, linesearch_ss_num = 10,
      reset_iter = 8\<rparr>"

text \<open>\<^verbatim>\<open>coorddesc::State\<close>.\<close>

record cd_State =
  st_coefs :: RegressionCoefficients
  st_residuals :: vec
  st_mscale :: real
  objf_loss :: real
  objf_pen :: real

text \<open>The members of \<^verbatim>\<open>CDPense\<close>; \<open>None\<close> is the null pointer.\<close>

record ('l, 'p) CDPense =
  loss_ptr :: "'l option"
  penalty_ptr :: "'p option"
  config :: CDPenseConfiguration
  lipschitz_bounds :: vec
  lipschitz_bound_intercept :: real
  state :: cd_State
  convergence_tolerance :: real

text \<open>
  Modelled from the spec: the optimum of \<^verbatim>\<open>nsoptim\<close> (\<^verbatim>\<open>nsoptim::MakeOptimum\<close>,
  \<^verbatim>\<open>nsoptim::OptimumStatus\<close>), which section 6 describes as the coefficients, the residuals,
  a success or warning status and an optional message. \<open>MakeOptimum\<close> without a status gives
  the success status and no message.
\<close>

datatype OptimumStatus = kOk | kWarning | kError

record Optimum =
  opt_coefs :: RegressionCoefficients
  opt_residuals :: vec
  opt_status :: OptimumStatus
  opt_message :: string

definition MakeOptimum :: "RegressionCoefficients \<Rightarrow> vec \<Rightarrow> OptimumStatus \<Rightarrow> string \<Rightarrow> Optimum" where
  "MakeOptimum c r st msg = \<lparr>opt_coefs = c, opt_residuals = r, opt_status = st, opt_message = msg\<rparr>"

text \<open>
  Modelled from the spec: \<^verbatim>\<open>nsoptim::SoftThreshold\<close>, the operator
  \<open>sign(z) * max(0, |z| - gamma)\<close> of section 2.
\<close>

definition nsoptim_SoftThreshold :: "real \<Rightarrow> real \<Rightarrow> real" where
  "nsoptim_SoftThreshold z gamma = sgn z * max 0 (\<bar>z\<bar> - gamma)"

text \<open>
  The constructors (lines 69-81): without and with a loss and a penalty. The members they
  leave uninitialised are 0 here.
\<close>

definition cd_State0 :: cd_State where
  "cd_State0 = \<lparr>st_coefs = \<lparr>cf_intercept = 0, cf_beta = []\<rparr>, st_residuals = [],
                st_mscale = 0, objf_loss = 0, objf_pen = 0\<rparr>"

definition CDPense_new :: "('l, 'p) CD_env \<Rightarrow> CDPenseConfiguration \<Rightarrow> ('l, 'p) CDPense" where
  "CDPense_new E cfg =
     \<lparr>loss_ptr = None, penalty_ptr = None, config = cfg, lipschitz_bounds = [],
      lipschitz_bound_intercept = 0, state = cd_State0,
      convergence_tolerance = kDefaultConvergenceTolerance E\<rparr>"

definition CDPense_new_with :: "('l, 'p) CD_env \<Rightarrow> 'l \<Rightarrow> 'p \<Rightarrow> CDPenseConfiguration
    \<Rightarrow> ('l, 'p) CDPense" where
  "CDPense_new_with E l p cfg = (CDPense_new E cfg)\<lparr>loss_ptr := Some l, penalty_ptr := Some p\<rparr>"

text \<open>\<^verbatim>\<open>Reset\<close> (lines 110-114) and the setters of the loss and the penalty (lines 139-153).\<close>

definition CDPense_Reset :: "('l, 'p) CDPense \<Rightarrow> ('l, 'p) CDPense" where
  "CDPense_Reset s = s\<lparr>loss_ptr := None, penalty_ptr := None,
                        state := (state s)\<lparr>st_residuals := []\<rparr>\<rparr>"

definition set_loss :: "'l \<Rightarrow> ('l, 'p) CDPense \<Rightarrow> ('l, 'p) CDPense" where
  "set_loss l s = s\<lparr>loss_ptr := Some l, lipschitz_bounds := []\<rparr>"

definition set_penalty :: "'p \<Rightarrow> ('l, 'p) CDPense \<Rightarrow> ('l, 'p) CDPense" where
  "set_penalty p s = s\<lparr>penalty_ptr := Some p\<rparr>"

text \<open>
  The body of \<^verbatim>\<open>ResetState\<close> (lines 395-398) once both pointers are known to be set, and
  the member function with its two checks (lines 388-399).
\<close>

definition reset_state :: "('l, 'p) CD_env \<Rightarrow> 'l \<Rightarrow> 'p \<Rightarrow> RegressionCoefficients \<Rightarrow> 'l \<times> cd_State" where
  "reset_state E l p c =
     (let st = \<lparr>st_coefs = c, st_residuals = Residuals E l c, st_mscale = 0, objf_loss = 0,
                objf_pen = pen_Evaluate E p c\<rparr>;
          (loss_eval, l1) = EvaluateResiduals E l (st_residuals st)
      in (l1, st\<lparr>st_mscale := ev_scale loss_eval, objf_loss := ev_loss loss_eval\<rparr>))"

definition ResetState :: "('l, 'p) CD_env \<Rightarrow> ('l, 'p) CDPense \<Rightarrow> RegressionCoefficients
    \<Rightarrow> cd_exception + ('l, 'p) CDPense" where
  "ResetState E s c =
     (case loss_ptr s of
        None \<Rightarrow> Inl (logic_error ''no loss set'')
      | Some l \<Rightarrow>
          (case penalty_ptr s of
             None \<Rightarrow> Inl (logic_error ''no penalty set'')
           | Some p \<Rightarrow>
               (let (l1, st) = reset_state E l p c
                in Inr (s\<lparr>loss_ptr := Some l1, state := st\<rparr>))))"

text \<open>
  \<^verbatim>\<open>UpdateLipschitzBounds\<close>, lines 344-358: \<open>(lipschitz_bounds, lipschitz_bound_intercept)\<close>.
  When \<open>eff_n\<close> is a whole number, \<open>separation\<close> is 0, the logarithm is \<open>-inf\<close> and (for
  \<open>eff_n \<ge> 0\<close>) so is \<open>mult\<close>: the two minima are then 80 and 50.
\<close>

definition UpdateLipschitzBounds :: "('l, 'p) CD_env \<Rightarrow> 'l \<Rightarrow> cd_State \<Rightarrow> vec \<times> real" where
  "UpdateLipschitzBounds E l st =
     (let dat = loss_data E l;
          eff_n = real (d_n_obs dat) * (1 - mscale_delta E l);
          separation = eff_n - of_int \<lfloor>eff_n\<rfloor>;
          mult = ln (separation * (1 - separation)) / root 3 eff_n;
          u1 = (if separation = 0 then 80 else min 80 (- 40 * mult)) / rho_cc E l;
          u2 = (if separation = 0 then 50 else min 50 (100 * mult * mult * mult * mult))
               / rho_cc E l;
          bounds = map (\<lambda>j. u1 * u1 * (sum_list (d_cx dat ! j) * sum_list (d_cx dat ! j))
                            + u2 * st_mscale st
                              * \<bar>sum_list (map sum_list (outer (d_cx dat ! j) (d_cx dat ! j)))\<bar>)
                     [0..<d_n_pred dat]
      in (bounds, (u1 * u1 + u2 * st_mscale st) * real (d_n_obs dat) * real (d_n_obs dat)))"

text \<open>The two \<^verbatim>\<open>Gradient\<close> functions, lines 360-371.\<close>

definition Gradient_intercept :: "('l, 'p) CD_env \<Rightarrow> 'l \<Rightarrow> cd_State \<Rightarrow> real" where
  "Gradient_intercept E l st =
     (let psi = rho_Derivative E l (st_residuals st) (st_mscale st)
      in - st_mscale st * st_mscale st * accu psi / dot psi (st_residuals st))"

definition Gradient_slope :: "('l, 'p) CD_env \<Rightarrow> 'l \<Rightarrow> cd_State \<Rightarrow> nat \<Rightarrow> real" where
  "Gradient_slope E l st j =
     (let psi = rho_Derivative E l (st_residuals st) (st_mscale st)
      in - st_mscale st * st_mscale st * dot psi (d_cx (loss_data E l) ! j)
           / dot psi (st_residuals st))"

text \<open>
  \<^verbatim>\<open>UpdateSlope\<close> and \<^verbatim>\<open>PenaltyContribution\<close>, lines 373-410; the tag \<^verbatim>\<open>IsAdaptiveTag\<close> selects
  the overload.
\<close>

definition UpdateSlope :: "('l, 'p) CD_env \<Rightarrow> 'p \<Rightarrow> cd_State \<Rightarrow> nat \<Rightarrow> real \<Rightarrow> real \<Rightarrow> real" where
  "UpdateSlope E p st j stepsize gradient =
     (let dir = stepsize * (cf_beta (st_coefs st) ! j) - gradient
      in if is_adaptive E then
           (let penalty_level = pen_loadings E p ! j * pen_lambda E p
            in nsoptim_SoftThreshold dir (penalty_level * pen_alpha E p)
                 / (stepsize + penalty_level * (1 - pen_alpha E p)))
         else nsoptim_SoftThreshold dir (pen_lambda E p * pen_alpha E p)
                / (stepsize + pen_lambda E p * (1 - pen_alpha E p)))"

definition PenaltyContribution :: "('l, 'p) CD_env \<Rightarrow> 'p \<Rightarrow> real \<Rightarrow> nat \<Rightarrow> real" where
  "PenaltyContribution E p val j =
     (if is_adaptive E then
        pen_loadings E p ! j * pen_lambda E p
          * (pen_alpha E p * \<bar>val\<bar> + 0.5 * (1 - pen_alpha E p) * val * val)
      else pen_lambda E p * (pen_alpha E p * \<bar>val\<bar> + 0.5 * (1 - pen_alpha E p) * val * val))"

text \<open>
  The line search for the intercept, lines 228-250. \<open>k\<close> is \<open>ls_step\<close> before the test
  \<^verbatim>\<open>ls_step++ < linesearch_ss_num\<close>; the result carries \<open>ls_step\<close> as it is after the loop, the
  loss object, the state, \<open>updated_coef\<close> and \<open>stepsize\<close>.
\<close>

function ls_intercept :: "('l, 'p) CD_env \<Rightarrow> CDPenseConfiguration \<Rightarrow> real \<Rightarrow> real \<Rightarrow> int
    \<Rightarrow> 'l \<Rightarrow> cd_State \<Rightarrow> real \<Rightarrow> real \<Rightarrow> int \<times> 'l \<times> cd_State \<times> real \<times> real" where
  "ls_intercept E cfg tol gradient k l st updated_coef stepsize =
     (if k < linesearch_ss_num cfg then
        (let ls_step = k + 1;
             try_coef = cf_intercept (st_coefs st) - gradient / stepsize;
             res1 = vshift (st_residuals st) (updated_coef - try_coef);
             (eval_loss, l1) = EvaluateResiduals E l res1
         in if ev_loss eval_loss > objf_loss st + tol
               \<or> (ls_step > 0 \<and> ev_loss eval_loss > objf_loss st)
            then (ls_step, mscale_SetInitial E l1 (st_mscale st),
                  st\<lparr>st_residuals := vunshift res1 (updated_coef - try_coef)\<rparr>,
                  updated_coef, stepsize)
            else ls_intercept E cfg tol gradient ls_step l1
                   (st\<lparr>st_residuals := res1, objf_loss := ev_loss eval_loss,
                       st_mscale := ev_scale eval_loss\<rparr>)
                   try_coef (stepsize * linesearch_ss_multiplier cfg))
      else (k + 1, l, st, updated_coef, stepsize))"
  by pat_completeness auto
termination
  by (relation "measure (\<lambda>(E, cfg, tol, g, k, r). nat (linesearch_ss_num cfg - k))") auto

text \<open>The intercept step of a cycle, lines 219-263.\<close>

definition cd_intercept :: "('l, 'p) CD_env \<Rightarrow> CDPenseConfiguration \<Rightarrow> real \<Rightarrow> real
    \<Rightarrow> 'l \<Rightarrow> cd_State \<Rightarrow> 'l \<times> cd_State" where
  "cd_intercept E cfg tol lbi l st =
     (let gradient = Gradient_intercept E l st;
          (ls_step, l1, st1, updated_coef, stepsize) =
             ls_intercept E cfg tol gradient (- 1) l st (cf_intercept (st_coefs st)) lbi
      in if ls_step > 0
         then (l1, st1\<lparr>st_coefs := (st_coefs st1)\<lparr>cf_intercept := updated_coef\<rparr>\<rparr>)
         else (l1, st1))"

text \<open>The line search for the slope \<open>j\<close>, lines 278-306.\<close>

function ls_slope :: "('l, 'p) CD_env \<Rightarrow> 'p \<Rightarrow> CDPenseConfiguration \<Rightarrow> real \<Rightarrow> nat \<Rightarrow> real
    \<Rightarrow> real \<Rightarrow> int \<Rightarrow> 'l \<Rightarrow> cd_State \<Rightarrow> real \<Rightarrow> real
    \<Rightarrow> int \<times> 'l \<times> cd_State \<times> real \<times> real" where
  "ls_slope E p cfg tol j gradient objf_pen_prev k l st updated_coef stepsize =
     (if k < linesearch_ss_num cfg then
        (let ls_step = k + 1;
             try_coef = UpdateSlope E p st j stepsize gradient
         in if \<bar>try_coef - cf_beta (st_coefs st) ! j\<bar> > kNumericZero E then
              (let col = d_cx (loss_data E l) ! j;
                   res1 = vadd (st_residuals st) (vscale (updated_coef - try_coef) col);
                   (eval_loss, l1) = EvaluateResiduals E l res1;
                   new_objf_pen = objf_pen_prev + PenaltyContribution E p try_coef j;
                   new_objf = ev_loss eval_loss + new_objf_pen
               in if new_objf > objf_loss st + objf_pen st + tol
                     \<or> (ls_step > 0 \<and> new_objf > objf_loss st + objf_pen st)
                  then (ls_step, mscale_SetInitial E l1 (st_mscale st),
                        st\<lparr>st_residuals := vsub res1 (vscale (updated_coef - try_coef) col)\<rparr>,
                        updated_coef, stepsize)
                  else ls_slope E p cfg tol j gradient objf_pen_prev ls_step l1
                         (st\<lparr>st_residuals := res1, objf_loss := ev_loss eval_loss,
                             objf_pen := new_objf_pen, st_mscale := ev_scale eval_loss\<rparr>)
                         try_coef (stepsize * linesearch_ss_multiplier cfg))
            else ls_slope E p cfg tol j gradient objf_pen_prev ls_step l st
                   updated_coef (stepsize * linesearch_ss_multiplier cfg))
      else (k + 1, l, st, updated_coef, stepsize))"
  by pat_completeness auto
termination
  by (relation "measure (\<lambda>(E, p, cfg, tol, j, g, pp, k, r). nat (linesearch_ss_num cfg - k))") auto

text \<open>The step for the coordinate \<open>j\<close>, the body of the loop of lines 265-318.\<close>

definition cd_coordinate :: "('l, 'p) CD_env \<Rightarrow> 'p \<Rightarrow> CDPenseConfiguration \<Rightarrow> real \<Rightarrow> vec
    \<Rightarrow> nat \<Rightarrow> 'l \<Rightarrow> cd_State \<Rightarrow> 'l \<times> cd_State" where
  "cd_coordinate E p cfg tol lb j l st =
     (let gradient = Gradient_slope E l st j;
          objf_pen_prev = objf_pen st - PenaltyContribution E p (cf_beta (st_coefs st) ! j) j;
          (ls_step, l1, st1, updated_coef, stepsize) =
             ls_slope E p cfg tol j gradient objf_pen_prev (- 1) l st
               (cf_beta (st_coefs st) ! j) (lb ! j)
      in if ls_step > 0 \<and> \<bar>updated_coef - cf_beta (st_coefs st1) ! j\<bar> > kNumericZero E
         then (l1, st1\<lparr>st_coefs := (st_coefs st1)
                        \<lparr>cf_beta := (cf_beta (st_coefs st1))[j := updated_coef]\<rparr>\<rparr>)
         else (l1, st1))"

text \<open>The loop over the coordinates \<open>j, j + 1, ..., n_pred - 1\<close>.\<close>

function cd_coordinates :: "('l, 'p) CD_env \<Rightarrow> 'p \<Rightarrow> CDPenseConfiguration \<Rightarrow> real \<Rightarrow> vec
    \<Rightarrow> nat \<Rightarrow> nat \<Rightarrow> 'l \<Rightarrow> cd_State \<Rightarrow> 'l \<times> cd_State" where
  "cd_coordinates E p cfg tol lb npred j l st =
     (if j < npred then
        (let (l1, st1) = cd_coordinate E p cfg tol lb j l st
         in cd_coordinates E p cfg tol lb npred (j + 1) l1 st1)
      else (l, st))"
  by pat_completeness auto
termination
  by (relation "measure (\<lambda>(E, p, cfg, tol, lb, npred, j, r). npred - j)") auto

text \<open>
  One cycle, lines 214-333 without the tests that end or continue the loop: the intercept
  step when the loss has an intercept, then every coordinate once. \<open>npred\<close> is
  \<^verbatim>\<open>data.n_pred()\<close> of the data read before the loop (line 209).
\<close>

definition cd_cycle :: "('l, 'p) CD_env \<Rightarrow> 'p \<Rightarrow> CDPenseConfiguration \<Rightarrow> real \<Rightarrow> vec \<Rightarrow> real
    \<Rightarrow> nat \<Rightarrow> 'l \<Rightarrow> cd_State \<Rightarrow> 'l \<times> cd_State" where
  "cd_cycle E p cfg tol lb lbi npred l st =
     (let (l1, st1) = (if IncludeIntercept E l then cd_intercept E cfg tol lbi l st
                       else (l, st))
      in cd_coordinates E p cfg tol lb npred 0 l1 st1)"

text \<open>
  The loop of lines 213-334. \<open>it\<close> is \<open>iter\<close> before the test \<^verbatim>\<open>iter++ < max_it\<close>. The result
  says whether the loop was left by the \<^verbatim>\<open>return\<close> of lines 323-328 (the squared change of
  the objective below the squared tolerance), and gives \<open>iter\<close>, the loss object and the
  state. \<^verbatim>\<open>iter % reset_iter\<close> is the remainder of C++; a configuration with
  \<open>reset_iter = 0\<close> makes it undefined, and what is stated about the loop is stated for
  \<open>reset_iter \<noteq> 0\<close>.
\<close>

function cd_loop :: "('l, 'p) CD_env \<Rightarrow> 'p \<Rightarrow> CDPenseConfiguration \<Rightarrow> real \<Rightarrow> vec \<Rightarrow> real
    \<Rightarrow> nat \<Rightarrow> int \<Rightarrow> int \<Rightarrow> 'l \<Rightarrow> cd_State \<Rightarrow> bool \<times> int \<times> 'l \<times> cd_State" where
  "cd_loop E p cfg tol lb lbi npred cap it l st =
     (if it < cap then
        (let it1 = it + 1;
             objf_before_iter = objf_loss st + objf_pen st;
             (l1, st1) = cd_cycle E p cfg tol lb lbi npred l st;
             objf_change = (objf_loss st1 + objf_pen st1) - objf_before_iter
         in if objf_change * objf_change < tol * tol then (True, it1, l1, st1)
            else cd_loop E p cfg tol lb lbi npred cap it1 l1
                   (if it1 > 0 \<and> it1 mod reset_iter cfg = 0
                    then st1\<lparr>st_residuals := Residuals E l1 (st_coefs st1)\<rparr>
                    else st1))
      else (False, it + 1, l, st))"
  by pat_completeness auto
termination
  by (relation "measure (\<lambda>(E, p, cfg, tol, lb, lbi, npred, cap, it, r). nat (cap - it))") auto

text \<open>
  Lines 198-334 of \<^verbatim>\<open>Optimize(const int max_it)\<close>, for a loss \<open>l\<close> and a penalty \<open>p\<close> that are
  set: the start state and the Lipschitz bounds when they are missing, then the loop. The
  result is the loop's, with the bounds.
\<close>

definition optimize_run :: "('l, 'p) CD_env \<Rightarrow> ('l, 'p) CDPense \<Rightarrow> 'l \<Rightarrow> 'p \<Rightarrow> int
    \<Rightarrow> (bool \<times> int \<times> 'l \<times> cd_State) \<times> vec \<times> real" where
  "optimize_run E s l p cap =
     (let (l1, st1) = (if length (st_residuals (state s)) = 0
                       then reset_state E l p (ZeroCoefficients E l)
                       else (l, state s));
          (lb, lbi) = (if length (lipschitz_bounds s) = 0
                       then UpdateLipschitzBounds E l1 st1
                       else (lipschitz_bounds s, lipschitz_bound_intercept s))
      in (cd_loop E p (config s) (convergence_tolerance s) lb lbi
            (d_n_pred (loss_data E l1)) cap 0 l1 st1, lb, lbi))"

text \<open>
  \<^verbatim>\<open>Optimize(const int max_it)\<close>, lines 190-341: the exception, or the object and the
  optimum.
\<close>

definition Optimize :: "('l, 'p) CD_env \<Rightarrow> ('l, 'p) CDPense \<Rightarrow> int
    \<Rightarrow> cd_exception + (('l, 'p) CDPense \<times> Optimum)" where
  "Optimize E s cap =
     (case loss_ptr s of
        None \<Rightarrow> Inl (logic_error ''no loss set'')
      | Some l \<Rightarrow>
          (case penalty_ptr s of
             None \<Rightarrow> Inl (logic_error ''no penalty set'')
           | Some p \<Rightarrow>
               (let ((converged, it, l2, st2), lb, lbi) = optimize_run E s l p cap;
                    s2 = s\<lparr>loss_ptr := Some l2, lipschitz_bounds := lb,
                           lipschitz_bound_intercept := lbi\<rparr>
                in if converged
                   then Inr (s2\<lparr>state := st2\<rparr>,
                             MakeOptimum (st_coefs st2) (st_residuals st2) kOk [])
                   else
                     (let st3 = st2\<lparr>st_residuals := Residuals E l2 (st_coefs st2)\<rparr>
                      in Inr (s2\<lparr>state := st3\<rparr>,
                              MakeOptimum (st_coefs st3) (st_residuals st3) kWarning
                                ''Coordinate descent did not converge.'')))))"

text \<open>The other overloads of \<^verbatim>\<open>Optimize\<close>, lines 159-182.\<close>

definition Optimize_default :: "('l, 'p) CD_env \<Rightarrow> ('l, 'p) CDPense
    \<Rightarrow> cd_exception + (('l, 'p) CDPense \<times> Optimum)" where
  "Optimize_default E s = Optimize E s (max_it (config s))"

definition Optimize_from :: "('l, 'p) CD_env \<Rightarrow> ('l, 'p) CDPense \<Rightarrow> RegressionCoefficients
    \<Rightarrow> int \<Rightarrow> cd_exception + (('l, 'p) CDPense \<times> Optimum)" where
  "Optimize_from E s start cap =
     (case ResetState E s start of
        Inl e \<Rightarrow> Inl e
      | Inr s1 \<Rightarrow> Optimize E s1 cap)"

section \<open>Concrete inputs\<close>

text \<open>
  Small datasets and a solver for systems with one unknown, used where a theorem is
  evaluated at an explicit input. \<open>weightedMean\<close> is the weighted mean in the usual sense,
  \<open>sum w_i y_i / sum w_i\<close>, the minimiser of \<open>sum w_i (y_i - b)^2\<close> over \<open>b\<close>.
\<close>

definition weightedMean :: "vec \<Rightarrow> vec \<Rightarrow> real" where
  "weightedMean w yv = sum_list (map2 (*) w yv) / sum_list w"

definition solve1 :: "mat \<Rightarrow> vec \<Rightarrow> vec" where
  "solve1 H g = [hd g / hd (hd H)]"

text \<open>Two observations and no column at all; two observations and the intercept column only.\<close>

definition dataNoColumn :: Data where
  "dataNoColumn = \<lparr>numObs = 2, numVar = 0, getY = [3, 4], getXtr = []\<rparr>"

definition dataInterceptOnly :: Data where
  "dataInterceptOnly = \<lparr>numObs = 2, numVar = 1, getY = [1, 1], getXtr = [[1, 1]]\<rparr>"

text \<open>One observation with response 1, the intercept column and one predictor with value 1.\<close>

definition dataOneObs :: Data where
  "dataOneObs = \<lparr>numObs = 1, numVar = 2, getY = [1], getXtr = [[1], [1]]\<rparr>"

text \<open>
  One observation with response 1, the intercept column and one predictor with value 0;
  on it a solver with the default options but \<open>maxit = 1\<close>, with \<open>alpha = 1/2\<close> and
  \<open>lambda = 0\<close>.
\<close>

definition dataZeroPredictor :: Data where
  "dataZeroPredictor = \<lparr>numObs = 1, numVar = 2, getY = [1], getXtr = [[1], [0]]\<rparr>"

definition solverZeroLambda :: ENDal where
  "solverZeroLambda =
     setData dataZeroPredictor (setAlphaLambda (1 / 2) 0 ((ENDal_new True)\<lparr>maxIt := 1\<rparr>))"

text \<open>
  A solver with the default options but for the iteration cap, with \<open>alpha = 1/2\<close> and
  \<open>lambda = 1\<close>, on \<open>dataOneObs\<close>.
\<close>

definition solverOneObs :: "bool \<Rightarrow> int \<Rightarrow> ENDal" where
  "solverOneObs icpt cap =
     setData dataOneObs (setAlphaLambda (1 / 2) 1 ((ENDal_new icpt)\<lparr>maxIt := cap\<rparr>))"

text \<open>
  Three runs for the Hessian buffer, all with warm start \<open>beta = -1\<close> and iteration cap 1:
  a weighted solve with weight 1; on the object it leaves, a second weighted solve with
  weight 4, started from the coefficients and residuals of the first; and the same second
  solve after the buffer has been switched off (\<^verbatim>\<open>setOptions\<close> with \<^verbatim>\<open>useBuffer = false\<close>).
\<close>

definition bufferRun1 :: "ENDal \<times> vec \<times> vec" where
  "bufferRun1 = computeCoefsWeighted solve1 (solverOneObs True 1) [0, -1] [0] [1]"

definition bufferRun2 :: "ENDal \<times> vec \<times> vec" where
  "bufferRun2 = computeCoefsWeighted solve1 (fst bufferRun1)
                  (fst (snd bufferRun1)) (snd (snd bufferRun1)) [4]"

definition bufferRun2_off :: "ENDal \<times> vec \<times> vec" where
  "bufferRun2_off = computeCoefsWeighted solve1 ((fst bufferRun1)\<lparr>useHessBuffer := False\<rparr>)
                      (fst (snd bufferRun1)) (snd (snd bufferRun1)) [4]"

text \<open>
  The first two passes of the loop of \<open>dal\<close> on \<open>solverOneObs True 2\<close> with warm start
  \<open>beta = -1\<close>.
\<close>

definition etaRun_start :: "ENDal \<times> real \<times> vec" where
  "etaRun_start = dal_start (solverOneObs True 2) 0 [-1]"

definition etaRun_pass1 :: "(ENDal \<times> dal_vars) + (ENDal \<times> dal_vars)" where
  "etaRun_pass1 = dal_pass solve1 (fst etaRun_start)
                    (dal_vars0 (fst (snd etaRun_start)) (snd (snd etaRun_start)))"

definition etaRun_pass2 :: "(ENDal \<times> dal_vars) + (ENDal \<times> dal_vars)" where
  "etaRun_pass2 = dal_pass solve1 (fst (projr etaRun_pass1)) (snd (projr etaRun_pass1))"

text \<open>
  An instance of the driver: ordinary residuals, the weighting rule that gives every
  observation the weight 1, the DAL solver as \<open>en\<close>, and \<open>1e-16\<close> for \<^verbatim>\<open>NUMERIC_EPS\<close>; on
  the intercept-only dataset, with the option \<open>eps\<close> as given and the default \<open>maxit\<close>.
\<close>

definition olsResiduals :: "Data \<Rightarrow> vec \<Rightarrow> vec" where
  "olsResiduals d c = vsub (getY d) (mat_t_vec (getXtr d) (take (numVar d) c))"

definition unitWeightsEnv :: "ENDal IRWEN_env" where
  "unitWeightsEnv =
     \<lparr>NUMERICAL_TOLERANCE = 1 / 10 ^ 16, computeResiduals = olsResiduals,
      updateWeights = (\<lambda>r w. replicate (length w) 1),
      en_computeCoefsWeighted = computeCoefsWeighted solve1,
      en_getStatus = status\<rparr>"

definition irwenInterceptOnly :: "real option \<Rightarrow> ENDal IRWEN" where
  "irwenInterceptOnly opt_eps =
     IRWEN_new dataInterceptOnly None opt_eps (setData dataInterceptOnly (ENDal_new True))"

text \<open>
  An instance of the interface of the coordinate-descent solver: two observations with
  responses 1 and 3, an intercept and no predictor; the loss is the sum of the squared
  residuals with scale 1, its derivative function the residuals themselves; \<open>delta = 1/2\<close>
  and \<open>cc = 1\<close>. The optimizer has this loss, a penalty and the default configuration.
\<close>

definition toyEnv :: "(unit, unit) CD_env" where
  "toyEnv =
     \<lparr>kNumericZero = 1 / 10 ^ 12, kDefaultConvergenceTolerance = 1 / 10 ^ 6,
      EvaluateResiduals = (\<lambda>l r. (\<lparr>ev_loss = sum_list (map (\<lambda>x. x * x) r), ev_scale = 1\<rparr>, l)),
      Residuals = (\<lambda>l c. map (\<lambda>yv. yv - cf_intercept c) [1, 3]),
      IncludeIntercept = (\<lambda>l. True),
      ZeroCoefficients = (\<lambda>l. \<lparr>cf_intercept = 0, cf_beta = []\<rparr>),
      loss_data = (\<lambda>l. \<lparr>d_n_obs = 2, d_n_pred = 0, d_cx = []\<rparr>),
      mscale_SetInitial = (\<lambda>l x. l), mscale_delta = (\<lambda>l. 1 / 2), rho_cc = (\<lambda>l. 1),
      rho_Derivative = (\<lambda>l r sc. r),
      pen_lambda = (\<lambda>p. 1), pen_alpha = (\<lambda>p. 1 / 2), pen_loadings = (\<lambda>p. []),
      pen_Evaluate = (\<lambda>p c. 0),
      is_adaptive = False\<rparr>"

definition toyOptimizer :: "(unit, unit) CDPense" where
  "toyOptimizer = CDPense_new_with toyEnv () () kDefaultCDConfiguration"

section \<open>The invariant of the loop of \<open>dal\<close>\<close>

text \<open>
  \<open>new_entry\<close> is the debug line a pass appends. At the head of every pass the lines so
  far carry the pass numbers \<open>0, 1, ...\<close>, none of their dual values is above the one
  before it, and from the second pass on the last of them is the current \<open>dualFunVal\<close>.
\<close>

definition new_entry :: "ENDal \<Rightarrow> dal_vars \<Rightarrow> dal_log" where
  "new_entry s v = \<lparr>log_iter = iter v,
      log_dval = acceptDual (iter v) (dualObjective s) (dualFunVal v),
      log_eta = eta0 s, log_eta_int = eta1 s\<rparr>"

definition dal_inv :: "dal_vars \<Rightarrow> bool" where
  "dal_inv v = (0 \<le> iter v
     \<and> list_all (\<lambda>k. \<not> dv_gt (log_dval (debug_log v ! Suc k)) (log_dval (debug_log v ! k)))
          [0..<length (debug_log v) - 1]
     \<and> map log_iter (debug_log v) = map int [0..<length (debug_log v)]
     \<and> (if iter v = 0 then debug_log v = []
        else debug_log v \<noteq> [] \<and> log_dval (last (debug_log v)) = dualFunVal v
             \<and> int (length (debug_log v)) = iter v))"

lemmas arma_defs = accu_def mean_def dot_def schur_def vadd_def vsub_def vscale_def vshift_def
  vunshift_def zeros_def n_cols_def mat_vec_def mat_t_vec_def each_row_schur_def outer_def
  find_nz_def rows_gram_def mat_scale_def madd_def madd_scalar_def diag_add_def norm1_def
  zeros_mat_def max_abs_def write_buf_def

lemmas dal_defs = dal_def dal_vars0_def dal_start_def dal_pass_def updateEta_def dualMass_def
  acceptDual_def dualObjective_def minimizePhi_def phiValue_def evalPhiHess_def getHessBuff_def
  uvec_differs_def evalPhiGrad_def fullObjectiveFun_def lossDual_def softThreshold_def
  LINESEARCH_STEPSIZE_MULTIPLIER_def LINESEARCH_STEP_CONDITION_def LINESEARCH_MAX_STEP_def
  setData_def setAlphaLambda_def ENDal_new_def dal_residuals_def

section \<open>Soft thresholding\<close>

lemma softThreshold_sgn:
  "0 \<le> gamma \<Longrightarrow> softThreshold z gamma = sgn z * max 0 (\<bar>z\<bar> - gamma)"
  by (auto simp: softThreshold_def sgn_real_def max_def)

lemma vecSoftThreshold_map: "vecSoftThreshold zs gamma = map (\<lambda>z. softThreshold z gamma) zs"
  by (induction zs) simp_all

text \<open>
  C8. For every real \<open>z\<close> and every threshold \<open>gamma \<ge> 0\<close>, \<open>softThreshold z gamma\<close> is
  \<open>sign(z) * max(0, |z| - gamma)\<close>, and \<open>vecSoftThreshold\<close> applies exactly this operator to
  every element of its argument: the result has the argument's length and its \<open>i\<close>-th element
  is the operator at the \<open>i\<close>-th element.
\<close>

theorem C8_softThreshold_operator:
  assumes "0 \<le> gamma"
  shows "softThreshold z gamma = sgn z * max 0 (\<bar>z\<bar> - gamma)
       \<and> vecSoftThreshold zs gamma = map (\<lambda>z. sgn z * max 0 (\<bar>z\<bar> - gamma)) zs
       \<and> length (vecSoftThreshold zs gamma) = length zs"
  using assms by (simp add: softThreshold_sgn vecSoftThreshold_map)

theorem C8_softThreshold_operator_witness:
  "(0::real) \<le> 2
   \<and> softThreshold (-5) 2 = sgn (-5) * max 0 (\<bar>-5\<bar> - 2)
   \<and> vecSoftThreshold [-5, 1, 3] 2 = [-3, 0, 1]"
proof -
  have h: "(0::real) \<le> 2" by simp
  have m: "map (\<lambda>z::real. sgn z * max 0 (\<bar>z\<bar> - 2)) [-5, 1, 3] = [-3, 0, 1]" by simp
  show ?thesis
    using h C8_softThreshold_operator [OF h, of "-5" "[-5, 1, 3]"] m by simp
qed

section \<open>Regularisation parameters\<close>

text \<open>
  C7. For every pair of non-negative inputs, \<open>setLambdas lambda1 lambda2\<close> sets
  \<open>lambda = lambda1 + lambda2\<close> and \<open>alpha = lambda1 / (lambda1 + lambda2)\<close>, and sets
  \<open>alpha = 0\<close> when both are zero. (In the first case the divisor is not zero.)
\<close>

theorem C7_setLambdas:
  assumes "0 \<le> lambda1" and "0 \<le> lambda2"
  shows "lambda (setLambdas lambda1 lambda2 s) = lambda1 + lambda2
       \<and> alpha (setLambdas lambda1 lambda2 s) =
           (if lambda1 = 0 \<and> lambda2 = 0 then 0 else lambda1 / (lambda1 + lambda2))
       \<and> (lambda1 + lambda2 = 0 \<longleftrightarrow> lambda1 = 0 \<and> lambda2 = 0)"
  using assms by (auto simp: setLambdas_def Let_def add.commute)

theorem C7_setLambdas_witness:
  "(0::real) \<le> 1 \<and> (0::real) \<le> 3
   \<and> lambda (setLambdas 1 3 (ENDal_new True)) = 4
   \<and> alpha (setLambdas 1 3 (ENDal_new True)) = 1 / 4
   \<and> alpha (setLambdas 0 0 (ENDal_new True)) = 0"
proof -
  have h1: "(0::real) \<le> 1" and h3: "(0::real) \<le> 3" and h0: "(0::real) \<le> 0" by simp_all
  show ?thesis
    using C7_setLambdas [OF h1 h3, of "ENDal_new True"]
      C7_setLambdas [OF h0 h0, of "ENDal_new True"] by simp
qed

section \<open>The degenerate paths of \<open>computeCoefs\<close> and \<open>computeCoefsWeighted\<close>\<close>

lemma squaredL2Norm_sum: "squaredL2Norm x = sum_list (map (\<lambda>v. v * v) x)"
proof -
  have "0 \<le> sum_list (map (\<lambda>v::real. v * v) x)"
    by (rule sum_list_nonneg) auto
  then show ?thesis by (simp add: squaredL2Norm_def norm2_def Let_def)
qed

lemma write_buf_take: "length new \<le> length old \<Longrightarrow> take (length new) (write_buf new old) = new"
  by (simp add: write_buf_def)

lemma write_buf_same_length: "length new = length old \<Longrightarrow> write_buf new old = new"
  by (simp add: write_buf_def)

text \<open>
  C10. When the installed data has \<open>n_var = 0\<close>, \<open>computeCoefs\<close> and \<open>computeCoefsWeighted\<close>
  return the object and the coefficient buffer as they were; with \<open>n_obs > 0\<close> the first
  \<open>n_obs\<close> elements of the residual buffer are overwritten by the response (and nothing
  behind them), with \<open>n_obs = 0\<close> the buffer is unchanged too. Since the object is unchanged, the weighted variant
  has computed no square-root weights and has not set \<open>useWeights\<close>.
\<close>

theorem C10_no_variables:
  assumes "bufferSizeNvar s = 0"
  shows "computeCoefs solve s coefs resids =
           (s, coefs, if bufferSizeNobs s > 0 then write_buf (this_y s) resids else resids)
       \<and> computeCoefsWeighted solve s coefs resids weights =
           (s, coefs, if bufferSizeNobs s > 0 then write_buf (this_y s) resids else resids)
       \<and> take (length (this_y s)) (write_buf (this_y s) resids) = this_y s
       \<and> drop (length (this_y s)) (write_buf (this_y s) resids) = drop (length (this_y s)) resids"
  using assms
  by (simp add: computeCoefs_def computeCoefsWeighted_def Let_def write_buf_def)

theorem C10_no_variables_witness:
  "bufferSizeNvar (setData dataNoColumn (ENDal_new True)) = 0
   \<and> bufferSizeNobs (setData dataNoColumn (ENDal_new True)) = 2
   \<and> computeCoefs solve1 (setData dataNoColumn (ENDal_new True)) [7] [0, 0] =
       (setData dataNoColumn (ENDal_new True), [7], [3, 4])
   \<and> computeCoefsWeighted solve1 (setData dataNoColumn (ENDal_new True)) [7] [0, 0] [4, 9] =
       (setData dataNoColumn (ENDal_new True), [7], [3, 4])
   \<and> computeCoefs solve1 (ENDal_new True) [7] [5] = (ENDal_new True, [7], [5])"
proof -
  have h: "bufferSizeNvar (setData dataNoColumn (ENDal_new True)) = 0"
    by (simp add: setData_def dataNoColumn_def ENDal_new_def Let_def)
  have n: "bufferSizeNobs (setData dataNoColumn (ENDal_new True)) = 2"
    by (simp add: setData_def dataNoColumn_def ENDal_new_def Let_def)
  have y: "this_y (setData dataNoColumn (ENDal_new True)) = [3, 4]"
    by (simp add: setData_def dataNoColumn_def ENDal_new_def Let_def)
  have h0: "bufferSizeNvar (ENDal_new True) = 0" and n0: "bufferSizeNobs (ENDal_new True) = 0"
    by (simp_all add: ENDal_new_def)
  show ?thesis
    using C10_no_variables [OF h, of solve1 "[7]" "[0, 0]" "[4, 9]"]
      C10_no_variables [OF h0, of solve1 "[7]" "[5]" "[]"] h n y n0
    by (simp add: write_buf_def)
qed

text \<open>
  The degenerate path with at least one column (\<open>n_var = 1\<close>, or \<open>n_obs = 0\<close> with
  \<open>n_var \<ge> 1\<close>): neither function calls \<open>dal\<close>. The intercept is the mean of the response
  in \<open>computeCoefs\<close> and the mean of the products \<open>sqrt w_i * y_i\<close> in
  \<open>computeCoefsWeighted\<close> (0 without observations), the slopes are zero and the residuals are
  the response minus the intercept.
\<close>

lemma computeCoefs_degenerate:
  assumes "bufferSizeNvar s \<noteq> 0" and "bufferSizeNvar s = 1 \<or> bufferSizeNobs s = 0"
  shows "computeCoefs solve s coefs resids =
           (let icpt = (if bufferSizeNobs s > 0 then mean (this_y s) else 0)
            in (s, write_buf (icpt # zeros (bufferSizeNvar s - 1)) coefs,
                write_buf (vunshift (this_y s) icpt) resids))"
  using assms by (simp add: computeCoefs_def)

lemma computeCoefsWeighted_degenerate:
  assumes "bufferSizeNvar s \<noteq> 0" and "bufferSizeNvar s = 1 \<or> bufferSizeNobs s = 0"
  shows "computeCoefsWeighted solve s coefs resids weights =
           (let sw = map sqrt (take (bufferSizeNobs s) weights);
                icpt = (if bufferSizeNobs s > 0 then mean (schur sw (this_y s)) else 0)
            in (s\<lparr>sqrtWeights := sw, sqrtWeightsOuter := outer sw sw, useWeights := True\<rparr>,
                write_buf (icpt # zeros (bufferSizeNvar s - 1)) coefs,
                write_buf (vunshift (this_y s) icpt) resids))"
  using assms by (simp add: computeCoefsWeighted_def Let_def)

text \<open>
  C1, evaluated where it fails. Data: two observations with response 1 and the intercept
  column only (\<open>n_var = 1\<close>); weights 4 and 4. \<open>computeCoefs\<close> stores the mean 1 and the
  residuals 0. \<open>computeCoefsWeighted\<close> stores the intercept 2, the mean of
  \<open>sqrt 4 * 1\<close>, and the residuals -1, while the weighted mean of the response is 1.
\<close>

theorem C1_weighted_intercept_is_not_weighted_mean:
  "snd (computeCoefs solve (setData dataInterceptOnly (ENDal_new True)) [9] [9, 9])
     = ([1], [0, 0])
   \<and> snd (computeCoefsWeighted solve (setData dataInterceptOnly (ENDal_new True))
            [9] [9, 9] [4, 4])
     = ([2], [-1, -1])
   \<and> weightedMean [4, 4] (this_y (setData dataInterceptOnly (ENDal_new True))) = 1"
  by (simp add: computeCoefs_def computeCoefsWeighted_def setData_def dataInterceptOnly_def
        ENDal_new_def weightedMean_def Let_def arma_defs)

section \<open>The dataset view across \<open>computeCoefsWeighted\<close>\<close>

text \<open>On every path the response and the design matrix of the object are those of the entry.\<close>

lemma computeCoefsWeighted_restores_data:
  "this_y (fst (computeCoefsWeighted solve s coefs resids weights)) = this_y s
   \<and> Xtr (fst (computeCoefsWeighted solve s coefs resids weights)) = Xtr s"
  by (simp add: computeCoefsWeighted_def Let_def split: prod.splits)

text \<open>On the path through \<open>dal\<close> the flag is cleared and the residuals use the saved data.\<close>

lemma computeCoefsWeighted_solve_path:
  assumes "2 \<le> bufferSizeNvar s" and "1 \<le> bufferSizeNobs s"
  shows "useWeights (fst (computeCoefsWeighted solve s coefs resids weights)) = False"
  using assms by (simp add: computeCoefsWeighted_def Let_def split: prod.splits)

text \<open>
  C9, evaluated where it fails. On the intercept-only dataset the call returns from the
  degenerate path: response and design matrix are unchanged, but \<open>useWeights\<close>, false at
  entry, is true at return.
\<close>

theorem C9_flag_left_set_on_degenerate_path:
  "useWeights (setData dataInterceptOnly (ENDal_new True)) = False
   \<and> useWeights (fst (computeCoefsWeighted solve (setData dataInterceptOnly (ENDal_new True))
        [9] [9, 9] [4, 4])) = True
   \<and> this_y (fst (computeCoefsWeighted solve (setData dataInterceptOnly (ENDal_new True))
        [9] [9, 9] [4, 4])) = this_y (setData dataInterceptOnly (ENDal_new True))
   \<and> Xtr (fst (computeCoefsWeighted solve (setData dataInterceptOnly (ENDal_new True))
        [9] [9, 9] [4, 4])) = Xtr (setData dataInterceptOnly (ENDal_new True))"
  by (simp add: computeCoefsWeighted_def setData_def dataInterceptOnly_def
        ENDal_new_def Let_def arma_defs)

section \<open>The outer loop of \<open>dal\<close>\<close>

lemma minimizePhi_frame:
  "minimizePhi solve s b i = (s1, b1, i1, ok) \<Longrightarrow>
     maxIt s1 = maxIt s \<and> eta0 s1 = eta0 s \<and> eta1 s1 = eta1 s
     \<and> etaMultiplier s1 = etaMultiplier s \<and> eps s1 = eps s \<and> intercept s1 = intercept s
     \<and> useWeights s1 = useWeights s \<and> sqrtWeights s1 = sqrtWeights s
     \<and> this_y s1 = this_y s \<and> Xtr s1 = Xtr s"
  by (auto simp: minimizePhi_def Let_def split: prod.splits)

lemma dal_pass_cases:
  obtains
    (converged) "gapBelow (fullObjectiveFun s (v_intercept v) (v_beta v))
                   (acceptDual (iter v) (dualObjective s) (dualFunVal v)) (eps s)"
      "dal_pass solve s v = Inl (s, v\<lparr>dualFunVal := acceptDual (iter v) (dualObjective s) (dualFunVal v),
           debug_log := debug_log v @ [\<lparr>log_iter = iter v,
              log_dval = acceptDual (iter v) (dualObjective s) (dualFunVal v),
              log_eta = eta0 s, log_eta_int = eta1 s\<rparr>]\<rparr>)"
  | (capped) "iter v + 1 > maxIt s"
      "dal_pass solve s v = Inl (s, v\<lparr>dualFunVal := acceptDual (iter v) (dualObjective s) (dualFunVal v),
           debug_log := debug_log v @ [\<lparr>log_iter = iter v,
              log_dval = acceptDual (iter v) (dualObjective s) (dualFunVal v),
              log_eta = eta0 s, log_eta_int = eta1 s\<rparr>], iter := iter v + 1\<rparr>)"
  | (step) s1 b1 i1 ok s2 aL1 where
      "\<not> gapBelow (fullObjectiveFun s (v_intercept v) (v_beta v))
                   (acceptDual (iter v) (dualObjective s) (dualFunVal v)) (eps s)"
      "iter v + 1 \<le> maxIt s"
      "minimizePhi solve s (v_beta v) (v_intercept v) = (s1, b1, i1, ok)"
      "updateEta s1 (iter v + 1) (aL1Prev v) = (s2, aL1)"
      "dal_pass solve s v = Inr (s2, v\<lparr>dualFunVal := acceptDual (iter v) (dualObjective s) (dualFunVal v),
           debug_log := debug_log v @ [\<lparr>log_iter = iter v,
              log_dval = acceptDual (iter v) (dualObjective s) (dualFunVal v),
              log_eta = eta0 s, log_eta_int = eta1 s\<rparr>], iter := iter v + 1,
           v_beta := b1, v_intercept := i1, aL1Prev := aL1\<rparr>)"
proof -
  obtain s1 b1 i1 ok where m: "minimizePhi solve s (v_beta v) (v_intercept v) = (s1, b1, i1, ok)"
    by (metis prod_cases4)
  obtain s2 aL1 where u: "updateEta s1 (iter v + 1) (aL1Prev v) = (s2, aL1)"
    by fastforce
  show ?thesis
  proof (cases "gapBelow (fullObjectiveFun s (v_intercept v) (v_beta v))
                   (acceptDual (iter v) (dualObjective s) (dualFunVal v)) (eps s)")
    case True
    then show ?thesis using converged by (simp add: dal_pass_def Let_def)
  next
    case ng: False
    show ?thesis
    proof (cases "iter v + 1 > maxIt s")
      case True
      then show ?thesis using ng capped by (simp add: dal_pass_def Let_def)
    next
      case False
      then have "iter v + 1 \<le> maxIt s" by simp
      moreover have "dal_pass solve s v = Inr (s2, v\<lparr>dualFunVal := acceptDual (iter v) (dualObjective s) (dualFunVal v),
           debug_log := debug_log v @ [\<lparr>log_iter = iter v,
              log_dval = acceptDual (iter v) (dualObjective s) (dualFunVal v),
              log_eta = eta0 s, log_eta_int = eta1 s\<rparr>], iter := iter v + 1,
           v_beta := b1, v_intercept := i1, aL1Prev := aL1\<rparr>)"
        using ng False m u by (simp add: dal_pass_def Let_def)
      ultimately show ?thesis using ng m u step by blast
    qed
  qed
qed


lemma acceptDual_not_above: "0 < it \<Longrightarrow> \<not> dv_gt (acceptDual it new prev) prev"
  by (cases new; cases prev) (auto simp: acceptDual_def)

lemma dv_le_if_not_gt: "\<not> dv_gt u v \<Longrightarrow> u \<noteq> NaN \<Longrightarrow> v \<noteq> NaN \<Longrightarrow> dv_le u v"
  by (cases u; cases v) auto

lemma dal_inv_extend:
  assumes "dal_inv v"
  shows "list_all (\<lambda>k. \<not> dv_gt (log_dval ((debug_log v @ [new_entry s v]) ! Suc k))
                            (log_dval ((debug_log v @ [new_entry s v]) ! k)))
           [0..<length (debug_log v @ [new_entry s v]) - 1]
       \<and> map log_iter (debug_log v @ [new_entry s v])
           = map int [0..<length (debug_log v @ [new_entry s v])]"
proof -
  let ?lg = "debug_log v"
  have old: "\<And>k. Suc k < length ?lg \<Longrightarrow> \<not> dv_gt (log_dval (?lg ! Suc k)) (log_dval (?lg ! k))"
    using assms by (auto simp: dal_inv_def list_all_iff)
  have len: "int (length ?lg) = iter v"
    using assms by (auto simp: dal_inv_def split: if_splits)
  have "\<not> dv_gt (log_dval ((?lg @ [new_entry s v]) ! Suc k)) (log_dval ((?lg @ [new_entry s v]) ! k))"
    if k: "k < length ?lg" for k
  proof (cases "Suc k < length ?lg")
    case True
    then show ?thesis using old [OF True] k by (simp add: nth_append)
  next
    case False
    then have e: "Suc k = length ?lg" using k by simp
    then have ne: "?lg \<noteq> []" and pos: "0 < iter v" using len by auto
    have "length ?lg - 1 = k" using e by simp
    then have lastk: "?lg ! k = last ?lg"
      using ne by (simp add: last_conv_nth)
    have "log_dval (last ?lg) = dualFunVal v"
      using assms pos by (auto simp: dal_inv_def split: if_splits)
    then have "\<not> dv_gt (log_dval (new_entry s v)) (log_dval (?lg ! k))"
      using acceptDual_not_above [OF pos, of "dualObjective s" "dualFunVal v"] lastk
      by (simp add: new_entry_def)
    then show ?thesis using e k by (simp add: nth_append)
  qed
  then have "list_all (\<lambda>k. \<not> dv_gt (log_dval ((?lg @ [new_entry s v]) ! Suc k))
                            (log_dval ((?lg @ [new_entry s v]) ! k)))
               [0..<length (?lg @ [new_entry s v]) - 1]"
    by (simp add: list_all_iff)
  then show ?thesis using assms len by (simp add: dal_inv_def new_entry_def)
qed

lemma dal_inv_step:
  assumes "dal_inv v" and "dal_pass solve s v = Inr (s2, v2)"
  shows "dal_inv v2"
proof (cases rule: dal_pass_cases [of s v solve])
  case converged
  then show ?thesis using assms by simp
next
  case capped
  then show ?thesis using assms by simp
next
  case (step s1 b1 i1 ok s3 aL1)
  have ext: "list_all (\<lambda>k. \<not> dv_gt (log_dval ((debug_log v @ [new_entry s v]) ! Suc k))
                            (log_dval ((debug_log v @ [new_entry s v]) ! k)))
           [0..<length (debug_log v @ [new_entry s v]) - 1]
       \<and> map log_iter (debug_log v @ [new_entry s v])
           = map int [0..<length (debug_log v @ [new_entry s v])]"
    by (rule dal_inv_extend [OF assms(1)])
  have len: "int (length (debug_log v)) = iter v" and nn: "0 \<le> iter v"
    using assms(1) by (auto simp: dal_inv_def split: if_splits)
  have v2: "debug_log v2 = debug_log v @ [new_entry s v]" "iter v2 = iter v + 1"
     "dualFunVal v2 = log_dval (new_entry s v)"
    using step(5) assms(2) by (auto simp: new_entry_def)
  show ?thesis
    using ext len nn v2 by (simp add: dal_inv_def)
qed

lemma dal_loop_log:
  "dal_inv v \<Longrightarrow> dal_loop solve s v = (s', v') \<Longrightarrow>
     list_all (\<lambda>k. \<not> dv_gt (log_dval (debug_log v' ! Suc k)) (log_dval (debug_log v' ! k)))
       [0..<length (debug_log v') - 1]
     \<and> map log_iter (debug_log v') = map int [0..<length (debug_log v')]"
proof (induction solve s v rule: dal_loop.induct)
  case (1 solve s v)
  show ?case
  proof (cases rule: dal_pass_cases [of s v solve])
    case converged
    then have "debug_log v' = debug_log v @ [new_entry s v]"
      using "1.prems"(2) by (subst (asm) dal_loop.simps) (auto simp: new_entry_def)
    then show ?thesis using dal_inv_extend [OF "1.prems"(1), of s] by simp
  next
    case capped
    then have "debug_log v' = debug_log v @ [new_entry s v]"
      using "1.prems"(2) by (subst (asm) dal_loop.simps) (auto simp: new_entry_def)
    then show ?thesis using dal_inv_extend [OF "1.prems"(1), of s] by simp
  next
    case (step s1 b1 i1 ok s2 aL1)
    let ?v2 = "v\<lparr>dualFunVal := acceptDual (iter v) (dualObjective s) (dualFunVal v),
           debug_log := debug_log v @ [\<lparr>log_iter = iter v,
              log_dval = acceptDual (iter v) (dualObjective s) (dualFunVal v),
              log_eta = eta0 s, log_eta_int = eta1 s\<rparr>], iter := iter v + 1,
           v_beta := b1, v_intercept := i1, aL1Prev := aL1\<rparr>"
    have inv2: "dal_inv ?v2" by (rule dal_inv_step [OF "1.prems"(1) step(5)])
    have "dal_loop solve s2 ?v2 = (s', v')"
      using "1.prems"(2) step(5) by (subst (asm) dal_loop.simps) simp
    then show ?thesis
      using "1.IH" [OF step(5) refl inv2] by simp
  qed
qed

lemma dal_vars0_inv: "dal_inv (dal_vars0 icpt beta)"
  by (simp add: dal_inv_def dal_vars0_def)

lemma dal_log_guarded:
  "list_all (\<lambda>k. \<not> dv_gt (log_dval (snd (snd (snd (dal solve s icpt beta))) ! Suc k))
                       (log_dval (snd (snd (snd (dal solve s icpt beta))) ! k)))
     [0..<length (snd (snd (snd (dal solve s icpt beta)))) - 1]
   \<and> map log_iter (snd (snd (snd (dal solve s icpt beta))))
       = map int [0..<length (snd (snd (snd (dal solve s icpt beta))))]"
proof -
  obtain s1 i1 b1 where st: "dal_start s icpt beta = (s1, i1, b1)"
    by (metis prod_cases3)
  obtain s2 v where lp: "dal_loop solve s1 (dal_vars0 i1 b1) = (s2, v)"
    by fastforce
  have "snd (snd (snd (dal solve s icpt beta))) = debug_log v"
    using st lp by (simp add: dal_def Let_def)
  then show ?thesis
    using dal_loop_log [OF dal_vars0_inv lp] by simp
qed

text \<open>
  What the guard of lines 482-484 gives in every run of \<open>dal\<close>: the debug lines are numbered
  by the passes \<open>0, 1, ...\<close>, and the accepted dual value of pass \<open>k + 1\<close> is never above that
  of pass \<open>k\<close> in the comparison of the program. When neither of the two is NaN, it is at
  most that of pass \<open>k\<close>.
\<close>

lemma dal_dual_never_above_previous:
  assumes "Suc k < length (snd (snd (snd (dal solve s icpt beta))))"
  shows "log_iter (snd (snd (snd (dal solve s icpt beta))) ! Suc k) = int (Suc k)"
    and "\<not> dv_gt (log_dval (snd (snd (snd (dal solve s icpt beta))) ! Suc k))
                (log_dval (snd (snd (snd (dal solve s icpt beta))) ! k))"
    and "log_dval (snd (snd (snd (dal solve s icpt beta))) ! Suc k) \<noteq> NaN \<Longrightarrow>
         log_dval (snd (snd (snd (dal solve s icpt beta))) ! k) \<noteq> NaN \<Longrightarrow>
         dv_le (log_dval (snd (snd (snd (dal solve s icpt beta))) ! Suc k))
               (log_dval (snd (snd (snd (dal solve s icpt beta))) ! k))"
proof -
  let ?lg = "snd (snd (snd (dal solve s icpt beta)))"
  have g: "list_all (\<lambda>k. \<not> dv_gt (log_dval (?lg ! Suc k)) (log_dval (?lg ! k)))
             [0..<length ?lg - 1]"
    and num: "map log_iter ?lg = map int [0..<length ?lg]"
    using dal_log_guarded [of solve s icpt beta] by simp_all
  have "map log_iter ?lg ! Suc k = map int [0..<length ?lg] ! Suc k"
    using num by simp
  then show "log_iter (?lg ! Suc k) = int (Suc k)"
    using assms by simp
  show ng: "\<not> dv_gt (log_dval (?lg ! Suc k)) (log_dval (?lg ! k))"
    using g assms by (simp add: list_all_iff)
  show "dv_le (log_dval (?lg ! Suc k)) (log_dval (?lg ! k))"
    if "log_dval (?lg ! Suc k) \<noteq> NaN" "log_dval (?lg ! k) \<noteq> NaN"
    using dv_le_if_not_gt [OF ng that] .
qed

lemmas run_defs = solverOneObs_def dataOneObs_def solve1_def dal_defs arma_defs
  squaredL2Norm_sum dal_loop.simps newtonLoop.simps lineSearch.simps Let_def

text \<open>A run with finite dual values: they decrease.\<close>

lemma run_no_intercept:
  "map log_dval (snd (snd (snd (dal solve1 (solverOneObs False 1) 0 [-1]))))
     = [Finite (9 / 4), Finite (351609 / 164836)]"
  by (simp add: run_defs)

text \<open>
  C2, evaluated where it fails: \<open>lambda = 0\<close> with \<open>alpha = 1/2\<close>, on one observation whose
  predictor value is 0 (default options, \<open>maxit = 1\<close>, start from the coefficients 0). The
  inner product \<^verbatim>\<open>Xtr * dualVec\<close> is 0 and \<open>updateDenomMult\<close> is \<open>+inf\<close>, so the dual
  objective is NaN in every pass; NaN passes the guard, and the accepted value of pass 1 is
  not at most that of pass 0. The run ends at the iteration cap with the status 1.
\<close>

theorem C2_dual_value_nan_at_zero_lambda:
  "lambda solverZeroLambda = 0 \<and> alpha solverZeroLambda = 1 / 2
   \<and> map log_dval (snd (snd (snd (dal solve1 solverZeroLambda 0 [0])))) = [NaN, NaN]
   \<and> map log_iter (snd (snd (snd (dal solve1 solverZeroLambda 0 [0])))) = [0, 1]
   \<and> \<not> dv_le (log_dval (snd (snd (snd (dal solve1 solverZeroLambda 0 [0]))) ! 1))
               (log_dval (snd (snd (snd (dal solve1 solverZeroLambda 0 [0]))) ! 0))
   \<and> status (fst (dal solve1 solverZeroLambda 0 [0])) = 1"
  by (simp add: solverZeroLambda_def dataZeroPredictor_def run_defs)

section \<open>The step-size multipliers\<close>

text \<open>
  What lines 513-525 do: \<open>eta[0]\<close> is multiplied by \<open>etaMultiplier\<close>; with an intercept,
  \<open>eta[1]\<close> is multiplied by \<open>10 * etaMultiplier\<close> when \<open>iter > 1\<close> and the sum \<open>aL1\<close> of the
  dual vector (of its products with the square-root weights, when weighted) is above
  \<open>eps\<close> and above half its previous value, and by \<open>etaMultiplier\<close> otherwise. The sum is
  compared as it is, with its sign.
\<close>

lemma updateEta_rule:
  assumes "updateEta s it prev = (s2, aL1)"
  shows "eta0 s2 = eta0 s * etaMultiplier s
       \<and> eta1 s2 = (if intercept s
                    then eta1 s * (if 1 < it \<and> eps s < dualMass s \<and> 0.5 * prev < dualMass s
                                   then 10 * etaMultiplier s else etaMultiplier s)
                    else eta1 s)
       \<and> aL1 = (if intercept s then dualMass s else prev)
       \<and> dualMass s2 = dualMass s"
  using assms by (auto simp: updateEta_def dualMass_def Let_def split: if_splits)

lemma dal_pass_eta:
  assumes "dal_pass solve s v = Inr (s2, v2)"
  shows "eta0 s2 = eta0 s * etaMultiplier s
       \<and> eta1 s2 = (if intercept s
                    then eta1 s * (if 1 < iter v2 \<and> eps s < dualMass s2
                                      \<and> 0.5 * aL1Prev v < dualMass s2
                                   then 10 * etaMultiplier s else etaMultiplier s)
                    else eta1 s)"
proof (cases rule: dal_pass_cases [of s v solve])
  case converged
  then show ?thesis using assms by simp
next
  case capped
  then show ?thesis using assms by simp
next
  case (step s1 b1 i1 ok s3 aL1)
  have fr: "eta0 s1 = eta0 s" "eta1 s1 = eta1 s" "etaMultiplier s1 = etaMultiplier s"
    "eps s1 = eps s" "intercept s1 = intercept s"
    using minimizePhi_frame [OF step(3)] by simp_all
  have eq: "s2 = s3" "iter v2 = iter v + 1"
    using step(5) assms by auto
  show ?thesis
    using updateEta_rule [OF step(4)] fr eq by simp
qed

lemma etaRun_pass1_value:
  "etaRun_pass1 =
     Inr (\<lparr>intercept = True, status = 0, statusMessage = [], maxIt = 2,
            eps = 1 / 100000, warmStart = True, etaStart = - 1,
            etaStartNumerator = 1 / 100, etaMultiplier = 2,
            useHessBuffer = True, bufferSizeNobs = 1, bufferSizeNvar = 2,
            this_y = [1], Xtr = [[1]], useWeights = False, sqrtWeights = [1],
            sqrtWeightsOuter = [], this_a = [- (200 / 20501)], eta0 = 1 / 50,
            eta1 = 1 / 50, nLambda = 1, lambda = 1, alpha = 1 / 2,
            hessBuff = [[1]], hessBuffKeep = [0]\<rparr>,
          \<lparr>iter = 1, dualFunVal = Finite 0, aL1Prev = - (200 / 20501),
            v_intercept = 41000 / 20501, v_beta = [- (20299 / 20501)],
            debug_log = [\<lparr>log_iter = 0, log_dval = Finite 0, log_eta = 1 / 100,
                           log_eta_int = 1 / 100\<rparr>]\<rparr>)"
  by (simp add: etaRun_pass1_def etaRun_start_def run_defs)

lemma etaRun_pass2_value:
  "etaRun_pass2 =
     Inr (\<lparr>intercept = True, status = 0, statusMessage = [], maxIt = 2,
            eps = 1 / 100000, warmStart = True, etaStart = - 1,
            etaStartNumerator = 1 / 100, etaMultiplier = 2,
            useHessBuffer = True, bufferSizeNobs = 1, bufferSizeNvar = 2,
            this_y = [1], Xtr = [[1]], useWeights = False, sqrtWeights = [1],
            sqrtWeightsOuter = [], this_a = [- (3050000 / 107650751)],
            eta0 = 1 / 25, eta1 = 1 / 25, nLambda = 1, lambda = 1,
            alpha = 1 / 2, hessBuff = [[1]], hessBuffKeep = [0]\<rparr>,
          \<lparr>iter = 2, dualFunVal = Finite 0, aL1Prev = - (3050000 / 107650751),
            v_intercept = 215230000 / 107650751,
            v_beta = [- (104529249 / 107650751)],
            debug_log = [\<lparr>log_iter = 0, log_dval = Finite 0, log_eta = 1 / 100,
                           log_eta_int = 1 / 100\<rparr>,
                         \<lparr>log_iter = 1, log_dval = Finite 0, log_eta = 1 / 50,
                           log_eta_int = 1 / 50\<rparr>]\<rparr>)"
  unfolding etaRun_pass2_def etaRun_pass1_value
  by (simp add: run_defs)

text \<open>
  C6, evaluated where it fails: the run of \<open>dal\<close> on one observation (response 1,
  predictor 1) with an intercept, \<open>alpha = 1/2\<close>, \<open>lambda = 1\<close>, default options but
  \<open>maxit = 2\<close>, warm start \<open>beta = -1\<close>. Both passes run \<open>minimizePhi\<close>. After the second
  inner step (\<open>iter = 2\<close>) the dual mass is \<open>-3050000/107650751\<close>: its absolute value is
  above \<open>eps = 1e-5\<close> and above half the absolute value of the previous mass
  \<open>-200/20501\<close>. The intercept multiplier goes from \<open>1/50\<close> to \<open>1/25\<close>: it is multiplied by
  \<open>etaMultiplier = 2\<close>, not by \<open>10 * etaMultiplier\<close>.
\<close>

theorem C6_intercept_multiplier_signed_mass:
  "\<not> isl etaRun_pass1 \<and> \<not> isl etaRun_pass2
   \<and> intercept (fst (projr etaRun_pass1))
   \<and> iter (snd (projr etaRun_pass2)) = 2
   \<and> aL1Prev (snd (projr etaRun_pass1)) = - (200 / 20501)
   \<and> dualMass (fst (projr etaRun_pass2)) = - (3050000 / 107650751)
   \<and> eps (fst (projr etaRun_pass1)) < \<bar>dualMass (fst (projr etaRun_pass2))\<bar>
   \<and> 0.5 * \<bar>aL1Prev (snd (projr etaRun_pass1))\<bar> < \<bar>dualMass (fst (projr etaRun_pass2))\<bar>
   \<and> etaMultiplier (fst (projr etaRun_pass1)) = 2
   \<and> eta1 (fst (projr etaRun_pass1)) = 1 / 50
   \<and> eta1 (fst (projr etaRun_pass2)) = 1 / 25"
  unfolding etaRun_pass2_value etaRun_pass1_value
  by (simp add: dualMass_def accu_def)

section \<open>The Hessian buffer\<close>

text \<open>
  What \<open>getHessBuff\<close> does: it recomputes exactly when the key differs from the stored one,
  the stored key is the argument afterwards, and a hit returns the stored matrix whatever
  the design matrix of the object is at that moment.
\<close>

lemma uvec_differs_iff: "uvec_differs keep key \<longleftrightarrow> keep \<noteq> key"
proof (induction keep arbitrary: key)
  case Nil
  then show ?case by (auto simp: uvec_differs_def)
next
  case (Cons k ks)
  show ?case
  proof (cases key)
    case Nil
    then show ?thesis by (simp add: uvec_differs_def)
  next
    case (Cons h hs)
    then show ?thesis using Cons.IH [of hs] by (auto simp: uvec_differs_def)
  qed
qed

lemma getHessBuff_rule:
  "getHessBuff s keep =
     (if keep = hessBuffKeep s then (s, hessBuff s)
      else (s\<lparr>hessBuff := rows_gram (Xtr s) keep, hessBuffKeep := keep\<rparr>,
            rows_gram (Xtr s) keep))"
  by (simp add: getHessBuff_def uvec_differs_iff Let_def)

lemma getHessBuff_key: "hessBuffKeep (fst (getHessBuff s keep)) = keep"
  by (simp add: getHessBuff_rule)

lemma bufferRun1_value:
  "bufferRun1 =
     (\<lparr>intercept = True, status = 1, statusMessage = ''algorithm did not converge'',
        maxIt = 1, eps = 1 / 100000, warmStart = True, etaStart = - 1,
        etaStartNumerator = 1 / 100, etaMultiplier = 2, useHessBuffer = True,
        bufferSizeNobs = 1, bufferSizeNvar = 2, this_y = [1], Xtr = [[1]],
        useWeights = False, sqrtWeights = [1], sqrtWeightsOuter = [[1]],
        this_a = [- (200 / 20501)], eta0 = 1 / 50, eta1 = 1 / 50, nLambda = 1,
        lambda = 1, alpha = 1 / 2, hessBuff = [[1]], hessBuffKeep = [0]\<rparr>,
      [41000 / 20501, - (20299 / 20501)], [- (200 / 20501)])"
  by (simp add: bufferRun1_def computeCoefsWeighted_def run_defs)

lemma bufferRun2_value:
  "hessBuff (fst bufferRun2) = [[1]] \<and> hessBuffKeep (fst bufferRun2) = [0]
   \<and> fst (snd bufferRun2) = [209283600 / 27040819, - (2174425127 / 1811734873)]"
  unfolding bufferRun2_def bufferRun1_value
  by (simp add: computeCoefsWeighted_def run_defs)

lemma bufferRun2_off_value:
  "fst (snd bufferRun2_off) = [430440000 / 55619213, - (66780787 / 55619213)]"
  unfolding bufferRun2_off_def bufferRun1_value
  by (simp add: computeCoefsWeighted_def run_defs)

text \<open>
  C3, evaluated where it fails: two weighted solves on one object, as \<^verbatim>\<open>IRWEN::compute\<close>
  makes them. Data: one observation, response 1, predictor 1; iteration cap 1; warm start.
  The first solve (weight 1) stores the key \<open>[0]\<close> and the matrix \<open>[[1]]\<close>. The second
  solve (weight 4) works on the design matrix \<open>[[2]]\<close>, for which
  \<open>Xtr.rows(keep).t() * Xtr.rows(keep)\<close> is \<open>[[4]]\<close>; its active set is \<open>[0]\<close> again,
  \<open>getHessBuff\<close> returns the stored \<open>[[1]]\<close>, and the buffer still holds \<open>[[1]]\<close> at the
  end. The coefficients the second solve returns differ from those it returns with the
  buffer switched off.
\<close>

theorem C3_buffer_stale_after_new_weights:
  "hessBuffKeep (fst bufferRun1) = [0] \<and> hessBuff (fst bufferRun1) = [[1]]
   \<and> each_row_schur (Xtr (fst bufferRun1)) (map sqrt [4]) = [[2]]
   \<and> rows_gram [[2]] [0] = [[4]]
   \<and> snd (getHessBuff ((fst bufferRun1)\<lparr>Xtr := [[2]]\<rparr>) [0]) = [[1]]
   \<and> hessBuffKeep (fst bufferRun2) = [0] \<and> hessBuff (fst bufferRun2) = [[1]]
   \<and> fst (snd bufferRun2) = [209283600 / 27040819, - (2174425127 / 1811734873)]
   \<and> fst (snd bufferRun2_off) = [430440000 / 55619213, - (66780787 / 55619213)]
   \<and> fst (snd bufferRun2) \<noteq> fst (snd bufferRun2_off)"
  using bufferRun2_value bufferRun2_off_value
  by (simp add: bufferRun1_value getHessBuff_rule arma_defs)

section \<open>The convergence test of \<open>IRWEN::compute\<close>\<close>

lemma changeSums_zero:
  assumes "\<forall>j<n. oldCoef ! j = 0" and "\<forall>j<n. newCoef ! j = 0"
  shows "changeSums n oldCoef newCoef = (0, 0)"
  using assms
proof (induction n)
  case 0
  then show ?case by (simp add: changeSums_def)
next
  case (Suc n)
  then have "changeSums n oldCoef newCoef = (0, 0)" by simp
  then show ?case using Suc.prems by (simp add: changeSums_def)
qed

lemma irwen_pass_relChange:
  assumes "irwen_pass E st c r = (st1, c1, r1)"
  shows "relChangeVal st1 =
           relChangeRule (NUMERICAL_TOLERANCE E) (irwen_eps st)
             (fst (changeSums (numVar (data st)) (take (numVar (data st)) c) c1))
             (snd (changeSums (numVar (data st)) (take (numVar (data st)) c) c1))
         \<and> irwen_eps st1 = irwen_eps st \<and> irwen_maxIt st1 = irwen_maxIt st
         \<and> iteration st1 = iteration st + 1 \<and> data st1 = data st
         \<and> c1 = fst (snd (en_computeCoefsWeighted E (en st) c r
                  (updateWeights E r (this_weights st))))"
  using assms by (auto simp: irwen_pass_def Let_def split: prod.splits if_splits)

lemma irwen_loop_stop:
  assumes "irwen_pass E st c r = (st1, c1, r1)" and "\<not> irwen_continue st1"
  shows "irwen_loop E st c r = (st1, c1, r1)"
  using assms by (subst irwen_loop.simps) simp

lemma irwen_loop_go:
  assumes "irwen_pass E st c r = (st1, c1, r1)" and "irwen_continue st1"
  shows "irwen_loop E st c r = irwen_loop E st1 c1 r1"
  using assms by (subst irwen_loop.simps) simp

lemma IRWEN_new_eps_nonneg: "0 \<le> irwen_eps (IRWEN_new d opt_maxit opt_eps e)"
  by (simp add: IRWEN_new_def)

text \<open>
  What lines 83-93 and the loop test of line 99 do in a pass in which the squared norm
  \<open>norm2Old\<close> of the previous coefficients is below the numerical tolerance (the tolerance
  positive; the member \<open>eps\<close>, the square of the option, non-negative). If the squared
  change \<open>rc\<close> is below the tolerance too, \<open>relChangeVal\<close> is 0 and the loop ends with this
  pass. Otherwise \<open>relChangeVal\<close> is \<open>2 * eps\<close>; the loop makes another pass when the member
  \<open>eps\<close> is positive and the iteration cap is not reached. If the coefficients that entered
  the pass and those the solver returned are both the zero vector, \<open>relChangeVal\<close> is 0 and
  the loop ends with this pass.
\<close>

lemma irwen_relative_change_at_zero:
  assumes tol: "0 < NUMERICAL_TOLERANCE E"
    and eps: "0 \<le> irwen_eps st"
    and pass: "irwen_pass E st c r = (st1, c1, r1)"
    and sums: "changeSums (numVar (data st)) (take (numVar (data st)) c) c1 = (rc, norm2Old)"
    and small: "norm2Old < NUMERICAL_TOLERANCE E"
  shows "(rc < NUMERICAL_TOLERANCE E \<longrightarrow>
            relChangeVal st1 = 0 \<and> irwen_loop E st c r = (st1, c1, r1))
       \<and> (\<not> rc < NUMERICAL_TOLERANCE E \<longrightarrow>
            relChangeVal st1 = 2 * irwen_eps st
            \<and> (0 < irwen_eps st \<and> iteration st + 1 < irwen_maxIt st \<longrightarrow>
                 irwen_loop E st c r = irwen_loop E st1 c1 r1))
       \<and> ((\<forall>j < numVar (data st). c ! j = 0 \<and> c1 ! j = 0) \<longrightarrow>
            relChangeVal st1 = 0 \<and> irwen_loop E st c r = (st1, c1, r1))"
proof -
  note p = irwen_pass_relChange [OF pass]
  have rv: "relChangeVal st1 = relChangeRule (NUMERICAL_TOLERANCE E) (irwen_eps st) rc norm2Old"
    using p sums by simp
  have stop0: "irwen_loop E st c r = (st1, c1, r1)" if "relChangeVal st1 = 0"
  proof -
    have "\<not> irwen_continue st1"
      using that eps p by (simp add: irwen_continue_def)
    then show ?thesis by (rule irwen_loop_stop [OF pass])
  qed
  have a: "rc < NUMERICAL_TOLERANCE E \<longrightarrow>
            relChangeVal st1 = 0 \<and> irwen_loop E st c r = (st1, c1, r1)"
    using rv small stop0 by (simp add: relChangeRule_def)
  have b: "\<not> rc < NUMERICAL_TOLERANCE E \<longrightarrow>
            relChangeVal st1 = 2 * irwen_eps st
            \<and> (0 < irwen_eps st \<and> iteration st + 1 < irwen_maxIt st \<longrightarrow>
                 irwen_loop E st c r = irwen_loop E st1 c1 r1)"
  proof (intro impI conjI)
    assume nrc: "\<not> rc < NUMERICAL_TOLERANCE E"
    show r2: "relChangeVal st1 = 2 * irwen_eps st"
      using rv small nrc by (simp add: relChangeRule_def)
    assume "0 < irwen_eps st \<and> iteration st + 1 < irwen_maxIt st"
    then have "irwen_continue st1"
      using r2 p by (simp add: irwen_continue_def)
    then show "irwen_loop E st c r = irwen_loop E st1 c1 r1"
      by (rule irwen_loop_go [OF pass])
  qed
  have c: "(\<forall>j < numVar (data st). c ! j = 0 \<and> c1 ! j = 0) \<longrightarrow>
            relChangeVal st1 = 0 \<and> irwen_loop E st c r = (st1, c1, r1)"
  proof
    assume z: "\<forall>j < numVar (data st). c ! j = 0 \<and> c1 ! j = 0"
    have "changeSums (numVar (data st)) (take (numVar (data st)) c) c1 = (0, 0)"
      by (rule changeSums_zero) (use z in auto)
    then have "rc = 0" "norm2Old = 0" using sums by simp_all
    then have "relChangeVal st1 = 0"
      using rv tol by (simp add: relChangeRule_def)
    then show "relChangeVal st1 = 0 \<and> irwen_loop E st c r = (st1, c1, r1)"
      using stop0 by simp
  qed
  show ?thesis using a b c by blast
qed


lemmas irwen_defs = IRWEN_compute_def irwen_pass_def irwen_continue_def relChangeRule_def
  changeSums_def IRWEN_new_def irwenInterceptOnly_def unitWeightsEnv_def olsResiduals_def
  computeCoefsWeighted_def setData_def dataInterceptOnly_def ENDal_new_def

lemma irwen_run_default_eps:
  "iteration (fst (IRWEN_compute unitWeightsEnv (irwenInterceptOnly None) [0] [0, 0])) = 2
   \<and> relChangeVal (fst (IRWEN_compute unitWeightsEnv (irwenInterceptOnly None) [0] [0, 0])) = 0
   \<and> snd (IRWEN_compute unitWeightsEnv (irwenInterceptOnly None) [0] [0, 0]) = ([1], [0, 0])"
  by (simp add: irwen_defs irwen_loop.simps arma_defs Let_def eval_nat_numeral)

lemma irwen_first_pass:
  "fst (snd (irwen_pass unitWeightsEnv ((irwenInterceptOnly oe)\<lparr>iteration := 0\<rparr>) [0] [1, 1])) = [1]
   \<and> changeSums (numVar (data ((irwenInterceptOnly oe)\<lparr>iteration := 0\<rparr>)))
        (take (numVar (data ((irwenInterceptOnly oe)\<lparr>iteration := 0\<rparr>))) [0]) [1] = (1, 0)
   \<and> iteration ((irwenInterceptOnly oe)\<lparr>iteration := 0\<rparr>) + 1
        < irwen_maxIt ((irwenInterceptOnly oe)\<lparr>iteration := 0\<rparr>)
   \<and> IRWEN_compute unitWeightsEnv (irwenInterceptOnly oe) [0] [0, 0]
        = irwen_loop unitWeightsEnv ((irwenInterceptOnly oe)\<lparr>iteration := 0\<rparr>) [0] [1, 1]"
  by (simp add: irwen_defs arma_defs Let_def eval_nat_numeral)

text \<open>
  An instance with the default option \<open>eps = 1e-6\<close>: from the coefficient 0 the first pass
  sets \<open>relChangeVal\<close> to \<open>2 * eps\<close>, the loop goes on, and \<open>compute\<close> returns after the
  second pass.
\<close>

lemma irwen_relative_change_example:
  "relChangeVal (fst (irwen_pass unitWeightsEnv ((irwenInterceptOnly None)\<lparr>iteration := 0\<rparr>)
       [0] [1, 1])) = 2 * (1 / 1000000 * (1 / 1000000))
   \<and> irwen_loop unitWeightsEnv ((irwenInterceptOnly None)\<lparr>iteration := 0\<rparr>) [0] [1, 1]
       = irwen_loop unitWeightsEnv
           (fst (irwen_pass unitWeightsEnv ((irwenInterceptOnly None)\<lparr>iteration := 0\<rparr>) [0] [1, 1]))
           (fst (snd (irwen_pass unitWeightsEnv ((irwenInterceptOnly None)\<lparr>iteration := 0\<rparr>) [0] [1, 1])))
           (snd (snd (irwen_pass unitWeightsEnv ((irwenInterceptOnly None)\<lparr>iteration := 0\<rparr>) [0] [1, 1])))
   \<and> iteration (fst (IRWEN_compute unitWeightsEnv (irwenInterceptOnly None) [0] [0, 0])) = 2"
proof -
  let ?E = unitWeightsEnv
  let ?st = "(irwenInterceptOnly None)\<lparr>iteration := 0\<rparr>"
  let ?p = "irwen_pass ?E ?st [0] [1, 1]"
  have tol: "0 < NUMERICAL_TOLERANCE ?E" by (simp add: unitWeightsEnv_def)
  have eps: "0 \<le> irwen_eps ?st" by (simp add: irwenInterceptOnly_def IRWEN_new_def)
  have pass: "?p = (fst ?p, fst (snd ?p), snd (snd ?p))" by simp
  have c1: "fst (snd ?p) = [1]" using irwen_first_pass [of None] by simp
  have sums: "changeSums (numVar (data ?st)) (take (numVar (data ?st)) [0]) (fst (snd ?p)) = (1, 0)"
    using irwen_first_pass [of None] c1 by simp
  have small: "(0::real) < NUMERICAL_TOLERANCE ?E" by (rule tol)
  have big: "\<not> (1::real) < NUMERICAL_TOLERANCE ?E" by (simp add: unitWeightsEnv_def)
  have cap: "0 < irwen_eps ?st \<and> iteration ?st + 1 < irwen_maxIt ?st"
    by (simp add: irwenInterceptOnly_def IRWEN_new_def)
  have e: "irwen_eps ?st = 1 / 1000000 * (1 / 1000000)"
    by (simp add: irwenInterceptOnly_def IRWEN_new_def)
  show ?thesis
    using irwen_relative_change_at_zero [OF tol eps pass sums small] big cap e
      irwen_run_default_eps by simp
qed

text \<open>
  C5, evaluated where it fails: the option \<open>eps = 0\<close>, whose square, the member \<open>eps\<close>, is 0.
  On the intercept-only dataset, from the coefficient 0, the first pass has \<open>norm2Old = 0\<close>
  below and the squared change 1 above the numerical tolerance, and the cap 1000 is not
  reached. This is the branch of line 88, \<^verbatim>\<open>We moved away from the zero-vector --> continue\<close>:
  \<open>relChangeVal\<close> is set to \<open>2 * eps = 0\<close>, the test \<open>relChangeVal > eps\<close> fails, and
  \<open>compute\<close> returns after this one pass with the coefficient moved from 0 to 1 and the
  relative change 0. With the default \<open>eps\<close> the same call makes a second pass.
\<close>

theorem C5_zero_tolerance_stops_loop:
  "irwen_eps (irwenInterceptOnly (Some 0)) = 0
   \<and> irwen_maxIt (irwenInterceptOnly (Some 0)) = 1000
   \<and> changeSums 1 [0] [1] = (1, 0)
   \<and> (0::real) < NUMERICAL_TOLERANCE unitWeightsEnv
   \<and> \<not> (1::real) < NUMERICAL_TOLERANCE unitWeightsEnv
   \<and> fst (snd (irwen_pass unitWeightsEnv ((irwenInterceptOnly (Some 0))\<lparr>iteration := 0\<rparr>)
        [0] [1, 1])) = [1]
   \<and> iteration (fst (IRWEN_compute unitWeightsEnv (irwenInterceptOnly (Some 0)) [0] [0, 0])) = 1
   \<and> relChangeVal (fst (IRWEN_compute unitWeightsEnv (irwenInterceptOnly (Some 0)) [0] [0, 0])) = 0
   \<and> snd (IRWEN_compute unitWeightsEnv (irwenInterceptOnly (Some 0)) [0] [0, 0]) = ([1], [0, 0])
   \<and> iteration (fst (IRWEN_compute unitWeightsEnv (irwenInterceptOnly None) [0] [0, 0])) = 2"
  by (simp add: irwen_defs irwen_loop.simps arma_defs Let_def eval_nat_numeral)

section \<open>Errors and non-convergence of \<open>CDPense::Optimize\<close>\<close>

lemma Optimize_throws_iff:
  "isl (Optimize E s cap) \<longleftrightarrow> loss_ptr s = None \<or> penalty_ptr s = None"
  by (auto simp: Optimize_def Let_def split: option.splits prod.splits)

text \<open>
  How the loop ends: by its \<^verbatim>\<open>return\<close> within the cap, or with the cap used up (\<open>iter\<close> one
  past it).
\<close>

lemma cd_loop_flag:
  "cd_loop E p cfg tol lb lbi npred cap it l st = (conv, it', l', st') \<Longrightarrow>
     (if conv then it < it' \<and> it' \<le> cap else it' = max it cap + 1)"
proof (induction E p cfg tol lb lbi npred cap it l st rule: cd_loop.induct)
  case (1 E p cfg tol lb lbi npred cap it l st)
  show ?case
  proof (cases "it < cap")
    case False
    have "cd_loop E p cfg tol lb lbi npred cap it l st = (False, it + 1, l, st)"
      using False by (subst cd_loop.simps) simp
    then show ?thesis using "1.prems" False by auto
  next
    case True
    obtain l1 st1 where cyc: "cd_cycle E p cfg tol lb lbi npred l st = (l1, st1)"
      by fastforce
    let ?ch = "(objf_loss st1 + objf_pen st1) - (objf_loss st + objf_pen st)"
    show ?thesis
    proof (cases "?ch * ?ch < tol * tol")
      case c: True
      have "cd_loop E p cfg tol lb lbi npred cap it l st = (True, it + 1, l1, st1)"
        using True cyc c by (subst cd_loop.simps) (simp add: Let_def)
      then show ?thesis using "1.prems" True by auto
    next
      case c: False
      let ?st2 = "if it + 1 > 0 \<and> (it + 1) mod reset_iter cfg = 0
                  then st1\<lparr>st_residuals := Residuals E l1 (st_coefs st1)\<rparr> else st1"
      have "cd_loop E p cfg tol lb lbi npred cap it l st
              = cd_loop E p cfg tol lb lbi npred cap (it + 1) l1 ?st2"
        using True cyc c by (subst cd_loop.simps) (simp add: Let_def)
      then have run: "cd_loop E p cfg tol lb lbi npred cap (it + 1) l1 ?st2 = (conv, it', l', st')"
        using "1.prems" by simp
      have "if conv then it + 1 < it' \<and> it' \<le> cap else it' = max (it + 1) cap + 1"
        using "1.IH" [OF True refl refl refl cyc [symmetric] refl c run] by simp
      then show ?thesis using True by (auto split: if_splits)
    qed
  qed
qed

text \<open>
  C4. \<open>Optimize\<close> ends in an exception exactly when the loss or the penalty is not set,
  and the exception is then the logic error of the first missing one. When both are set
  (and \<open>reset_iter\<close> is not 0) and the loop is not left by the convergence test within the
  cap, \<open>Optimize\<close> returns: the residuals of the object are recomputed from its
  coefficients, and the optimum carries these coefficients and residuals, the warning
  status and the message \<open>Coordinate descent did not converge.\<close>
\<close>

theorem C4_Optimize_logic_error_and_warning:
  "(isl (Optimize E s cap) \<longleftrightarrow> loss_ptr s = None \<or> penalty_ptr s = None)
   \<and> (loss_ptr s = None \<longrightarrow> Optimize E s cap = Inl (logic_error ''no loss set''))
   \<and> (loss_ptr s \<noteq> None \<and> penalty_ptr s = None \<longrightarrow>
         Optimize E s cap = Inl (logic_error ''no penalty set''))
   \<and> (\<forall>l p. loss_ptr s = Some l \<and> penalty_ptr s = Some p \<and> reset_iter (config s) \<noteq> 0
          \<and> \<not> fst (fst (optimize_run E s l p cap)) \<longrightarrow>
        (\<exists>s2 l2. Optimize E s cap =
             Inr (s2, MakeOptimum (st_coefs (state s2)) (Residuals E l2 (st_coefs (state s2)))
                       kWarning ''Coordinate descent did not converge.'')
           \<and> loss_ptr s2 = Some l2
           \<and> st_residuals (state s2) = Residuals E l2 (st_coefs (state s2))
           \<and> st_coefs (state s2) = st_coefs (snd (snd (snd (fst (optimize_run E s l p cap)))))))"
proof -
  have a: "isl (Optimize E s cap) \<longleftrightarrow> loss_ptr s = None \<or> penalty_ptr s = None"
    by (rule Optimize_throws_iff)
  have b: "loss_ptr s = None \<longrightarrow> Optimize E s cap = Inl (logic_error ''no loss set'')"
    by (simp add: Optimize_def)
  have c: "loss_ptr s \<noteq> None \<and> penalty_ptr s = None \<longrightarrow>
         Optimize E s cap = Inl (logic_error ''no penalty set'')"
    by (auto simp: Optimize_def)
  have d: "\<exists>s2 l2. Optimize E s cap =
             Inr (s2, MakeOptimum (st_coefs (state s2)) (Residuals E l2 (st_coefs (state s2)))
                       kWarning ''Coordinate descent did not converge.'')
           \<and> loss_ptr s2 = Some l2
           \<and> st_residuals (state s2) = Residuals E l2 (st_coefs (state s2))
           \<and> st_coefs (state s2) = st_coefs (snd (snd (snd (fst (optimize_run E s l p cap)))))"
    if h: "loss_ptr s = Some l" "penalty_ptr s = Some p"
          "\<not> fst (fst (optimize_run E s l p cap))" for l p
  proof -
    obtain conv it l2 st2 lb lbi where
      run: "optimize_run E s l p cap = ((conv, it, l2, st2), lb, lbi)"
      by (metis prod_cases3 prod_cases4)
    have nc: "\<not> conv" using h(3) run by simp
    let ?st3 = "st2\<lparr>st_residuals := Residuals E l2 (st_coefs st2)\<rparr>"
    let ?s2 = "s\<lparr>loss_ptr := Some l2, lipschitz_bounds := lb,
                  lipschitz_bound_intercept := lbi, state := ?st3\<rparr>"
    have "Optimize E s cap =
            Inr (?s2, MakeOptimum (st_coefs ?st3) (st_residuals ?st3) kWarning
                        ''Coordinate descent did not converge.'')"
      using h(1,2) run nc by (simp add: Optimize_def Let_def)
    then show ?thesis using run by (intro exI [of _ ?s2] exI [of _ l2]) simp
  qed
  show ?thesis using a b c d by blast
qed

lemmas cd_defs = Optimize_def optimize_run_def cd_cycle_def cd_coordinate_def cd_intercept_def
  PenaltyContribution_def UpdateSlope_def Gradient_slope_def Gradient_intercept_def
  UpdateLipschitzBounds_def reset_state_def MakeOptimum_def nsoptim_SoftThreshold_def
  CDPense_new_with_def CDPense_new_def cd_State0_def kDefaultCDConfiguration_def
  toyOptimizer_def toyEnv_def

lemma toy_run_one_cycle:
  "fst (optimize_run toyEnv toyOptimizer () () 1) =
     (False, 2, (), \<lparr>st_coefs = \<lparr>cf_intercept = 1 / 64500, cf_beta = []\<rparr>,
        st_residuals = [64499 / 64500, 193499 / 64500], st_mscale = 1,
        objf_loss = 64499 / 64500 * (64499 / 64500) + 193499 / 64500 * (193499 / 64500),
        objf_pen = 0\<rparr>)"
  by (simp add: cd_defs cd_loop.simps cd_coordinates.simps ls_intercept.simps arma_defs Let_def)

lemma toy_optimum_one_cycle:
  "snd (projr (Optimize toyEnv toyOptimizer 1)) =
     MakeOptimum \<lparr>cf_intercept = 1 / 64500, cf_beta = []\<rparr> [64499 / 64500, 193499 / 64500]
       kWarning ''Coordinate descent did not converge.''"
  by (simp add: cd_defs cd_loop.simps cd_coordinates.simps ls_intercept.simps arma_defs Let_def)

theorem C4_Optimize_logic_error_and_warning_witness:
  "loss_ptr toyOptimizer = Some () \<and> penalty_ptr toyOptimizer = Some ()
   \<and> reset_iter (config toyOptimizer) \<noteq> 0
   \<and> \<not> fst (fst (optimize_run toyEnv toyOptimizer () () 1))
   \<and> \<not> isl (Optimize toyEnv toyOptimizer 1)
   \<and> snd (projr (Optimize toyEnv toyOptimizer 1)) =
       MakeOptimum \<lparr>cf_intercept = 1 / 64500, cf_beta = []\<rparr> [64499 / 64500, 193499 / 64500]
         kWarning ''Coordinate descent did not converge.''
   \<and> Optimize toyEnv (CDPense_new toyEnv kDefaultCDConfiguration) 1
       = Inl (logic_error ''no loss set'')
   \<and> Optimize toyEnv (set_loss () (CDPense_new toyEnv kDefaultCDConfiguration)) 1
       = Inl (logic_error ''no penalty set'')"
proof -
  have p: "loss_ptr toyOptimizer = Some ()" "penalty_ptr toyOptimizer = Some ()"
    "reset_iter (config toyOptimizer) \<noteq> 0"
    by (simp_all add: toyOptimizer_def CDPense_new_with_def CDPense_new_def
          kDefaultCDConfiguration_def)
  have nc: "\<not> fst (fst (optimize_run toyEnv toyOptimizer () () 1))"
    using toy_run_one_cycle by simp
  have n0: "loss_ptr (CDPense_new toyEnv kDefaultCDConfiguration) = None"
    by (simp add: CDPense_new_def)
  have n1: "loss_ptr (set_loss () (CDPense_new toyEnv kDefaultCDConfiguration)) \<noteq> None
            \<and> penalty_ptr (set_loss () (CDPense_new toyEnv kDefaultCDConfiguration)) = None"
    by (simp add: CDPense_new_def set_loss_def)
  show ?thesis
    using C4_Optimize_logic_error_and_warning [of toyEnv toyOptimizer 1]
      C4_Optimize_logic_error_and_warning [of toyEnv "CDPense_new toyEnv kDefaultCDConfiguration" 1]
      C4_Optimize_logic_error_and_warning
        [of toyEnv "set_loss () (CDPense_new toyEnv kDefaultCDConfiguration)" 1]
      p nc n0 n1 toy_optimum_one_cycle
    by simp
qed

end
